theory Spec2Isabelle
  imports Main "HOL-Library.Sublist" "HOL-Library.List_Lexorder"
begin

section \<open>Strings\<close>

text \<open>
  A Python \<open>str\<close> is a sequence of Unicode code points, and \<open>len\<close> counts code points.
  A string is therefore a list of code points (natural numbers); \<open>u\<close> embeds an ASCII
  literal. The three symbols of \<open>tasks/utils.py\<close> outside ASCII are named constants.
\<close>

type_synonym str = "nat list"

definition u :: "string \<Rightarrow> str" where
  "u s = map of_char s"

definition NEWLINE :: nat where
  "NEWLINE = 10"

definition HEAVY_CHECK_MARK :: nat where
  "HEAVY_CHECK_MARK = 10004"

definition CROSS_MARK :: nat where
  "CROSS_MARK = 10060"

definition SNAKE :: nat where
  "SNAKE = 128013"

section \<open>The message formatter\<close>

subsection \<open>Regular expressions as \<open>re.match\<close> reads them\<close>

text \<open>
  \<open>format_messages\<close> hands its pattern to \<open>re.match\<close> of the standard library. The
  pattern is modelled after parsing, as a syntax tree over literals, \<open>.\<close>, the anchors
  \<open>^\<close> and \<open>$\<close>, sequence, alternation and the star; the default pattern \<open>^$\<close>
  is \<open>Seq Bol Eol\<close>. Without the MULTILINE flag \<open>^\<close> holds at the start of the
  string only and \<open>$\<close> holds at the end of the string and just before a newline that
  ends the string. With DOTALL \<open>.\<close> takes any character, otherwise any but a newline.
\<close>

datatype regex =
    Eps
  | Chr nat
  | Dot
  | Bol
  | Eol
  | Seq regex regex
  | Alt regex regex
  | Star regex

record flags =
  DOTALL :: bool

text \<open>
  \<open>ends fl r s i\<close> lists the positions at which a match of \<open>r\<close> that starts at position
  \<open>i\<close> of \<open>s\<close> can end. A star iteration that consumes nothing reaches no new position,
  so the star only follows iterations that advance.
\<close>

function ends :: "flags \<Rightarrow> regex \<Rightarrow> str \<Rightarrow> nat \<Rightarrow> nat list" where
  "ends fl Eps s i = [i]"
| "ends fl (Chr c) s i = (if i < length s \<and> s ! i = c then [Suc i] else [])"
| "ends fl Dot s i =
     (if i < length s \<and> (DOTALL fl \<or> s ! i \<noteq> NEWLINE) then [Suc i] else [])"
| "ends fl Bol s i = (if i = 0 then [i] else [])"
| "ends fl Eol s i =
     (if i = length s \<or> (Suc i = length s \<and> s ! i = NEWLINE) then [i] else [])"
| "ends fl (Seq a b) s i = concat (map (\<lambda>j. ends fl b s j) (ends fl a s i))"
| "ends fl (Alt a b) s i = ends fl a s i @ ends fl b s i"
| "ends fl (Star a) s i =
     i # concat (map (\<lambda>j. ends fl (Star a) s j)
                     (filter (\<lambda>j. i < j \<and> j \<le> length s) (ends fl a s i)))"
  by pat_completeness auto
termination
proof (relation "measures [\<lambda>(fl, r, s, i). size r, \<lambda>(fl, r, s, i). length s - i]")
  show "wf (measures [\<lambda>(fl, r, s, i). size r, \<lambda>(fl, r, s, i). length s - i])"
    by simp
qed (simp_all, linarith)

text \<open>The star's equation unfolds itself under the inner function: it is applied by hand.\<close>

declare ends.simps(8) [simp del]

text \<open>
  \<open>re.match(pattern, string, flags)\<close> returns a match object when the pattern matches
  at the start of the string and \<open>None\<close> otherwise; a match object is always truthy.
  \<open>re_match\<close> is that truth value.
\<close>

definition re_match :: "regex \<Rightarrow> str \<Rightarrow> flags \<Rightarrow> bool" where
  "re_match pattern string fl \<longleftrightarrow> ends fl pattern string 0 \<noteq> []"

text \<open>\<open>re.fullmatch\<close>: the match must end at the end of the string.\<close>

definition re_fullmatch :: "regex \<Rightarrow> str \<Rightarrow> flags \<Rightarrow> bool" where
  "re_fullmatch pattern string fl \<longleftrightarrow> length string \<in> set (ends fl pattern string 0)"

text \<open>
  The relation the matcher decides: \<open>matches fl r s i j\<close> holds when \<open>r\<close> matches the
  part of \<open>s\<close> from position \<open>i\<close> up to position \<open>j\<close>.
\<close>

inductive matches :: "flags \<Rightarrow> regex \<Rightarrow> str \<Rightarrow> nat \<Rightarrow> nat \<Rightarrow> bool" where
  m_Eps: "matches fl Eps s i i"
| m_Chr: "i < length s \<Longrightarrow> s ! i = c \<Longrightarrow> matches fl (Chr c) s i (Suc i)"
| m_Dot: "i < length s \<Longrightarrow> DOTALL fl \<or> s ! i \<noteq> NEWLINE \<Longrightarrow> matches fl Dot s i (Suc i)"
| m_Bol: "matches fl Bol s 0 0"
| m_Eol: "i = length s \<or> (Suc i = length s \<and> s ! i = NEWLINE) \<Longrightarrow> matches fl Eol s i i"
| m_Seq: "matches fl a s i k \<Longrightarrow> matches fl b s k j \<Longrightarrow> matches fl (Seq a b) s i j"
| m_AltL: "matches fl a s i j \<Longrightarrow> matches fl (Alt a b) s i j"
| m_AltR: "matches fl b s i j \<Longrightarrow> matches fl (Alt a b) s i j"
| m_Star0: "matches fl (Star a) s i i"
| m_StarS: "matches fl a s i k \<Longrightarrow> matches fl (Star a) s k j \<Longrightarrow> matches fl (Star a) s i j"

subsection \<open>\<open>format_messages\<close>\<close>

datatype colour = Green | Red

datatype hide = HideStdout | HideBoth

text \<open>
  What a task writes and runs, in order: \<open>secho(text, fg=colour)\<close>, \<open>print(text)\<close> and
  \<open>ctx.run(command, pty=..., hide=...)\<close>.
\<close>

datatype event =
    Secho str colour
  | Print str
  | Run str bool "hide option"

definition default_success_pattern :: regex where
  "default_success_pattern = Seq Bol Eol"

definition NO_ISSUES_FOUND :: str where
  "NO_ISSUES_FOUND = HEAVY_CHECK_MARK # u '' No issues found.''"

definition format_messages :: "str \<Rightarrow> regex \<Rightarrow> event list" where
  "format_messages messages success_pattern =
     (if re_match success_pattern messages \<lparr>DOTALL = True\<rparr>
      then [Secho NO_ISSUES_FOUND Green]
      else [Print messages])"

section \<open>Errors\<close>

text \<open>
  The exceptions the module's functions raise or let through. \<open>Exit message code\<close> is
  \<open>invoke.Exit\<close> with its two optional arguments; \<open>raise Exit()\<close> is \<open>Exit None None\<close>.
\<close>

datatype error =
    KeyError
  | ValueError
  | Exit "str option" "int option"
  | FileExistsError
  | FileNotFoundError
  | NotADirectoryError
  | IsADirectoryError
  | PermissionError
  | OSError
  | UnicodeDecodeError
  | UnexpectedExit

text \<open>
  \<open>Exit.code\<close> of \<open>invoke\<close>, the status with which \<open>invoke\<close> ends the process when a
  task raises \<open>Exit\<close>: the code when one was given, else 1 with a message and 0 without.
\<close>

definition Exit_code :: "str option \<Rightarrow> int option \<Rightarrow> int" where
  "Exit_code message code =
     (case code of
        Some c \<Rightarrow> c
      | None \<Rightarrow> (case message of None \<Rightarrow> 0 | Some m \<Rightarrow> if m \<noteq> [] then 1 else 0))"

section \<open>The text reader\<close>

text \<open>
  \<open>open\<close> without a \<open>newline\<close> argument reads in universal newlines mode: a carriage
  return followed by a line feed, and a carriage return alone, reach the program as one
  line feed. \<open>readlines\<close> cuts the translated text after each newline and keeps the
  newlines; \<open>rstrip\<close> is \<open>str.rstrip(chars)\<close>.
\<close>

definition CARRIAGE_RETURN :: nat where
  "CARRIAGE_RETURN = 13"

fun universal_newlines :: "str \<Rightarrow> str" where
  "universal_newlines [] = []"
| "universal_newlines [c] = (if c = CARRIAGE_RETURN then [NEWLINE] else [c])"
| "universal_newlines (c # d # ds) =
     (if c = CARRIAGE_RETURN \<and> d = NEWLINE then NEWLINE # universal_newlines ds
      else if c = CARRIAGE_RETURN then NEWLINE # universal_newlines (d # ds)
      else c # universal_newlines (d # ds))"

fun readlines :: "str \<Rightarrow> str list" where
  "readlines [] = []"
| "readlines (c # cs) =
     (if c = NEWLINE then [c] # readlines cs
      else (case readlines cs of [] \<Rightarrow> [[c]] | l # ls \<Rightarrow> (c # l) # ls))"

definition rstrip :: "str \<Rightarrow> str \<Rightarrow> str" where
  "rstrip s chars = rev (dropWhile (\<lambda>c. c \<in> set chars) (rev s))"

text \<open>
  \<open>open_text fpath\<close> stands for the file behind \<open>open(fpath, encoding="utf-8")\<close>: the
  characters of the file as UTF-8 decodes them, line endings as they are stored, or the
  error raised on opening or decoding.
\<close>

definition read_contents :: "(str \<Rightarrow> error + str) \<Rightarrow> str \<Rightarrow> bool \<Rightarrow> error + str" where
  "read_contents open_text fpath strip_newline =
     (case open_text fpath of
        Inl e \<Rightarrow> Inl e
      | Inr f_in \<Rightarrow>
          (let contents = concat (readlines (universal_newlines f_in));
               contents = (if strip_newline then rstrip contents [NEWLINE] else contents)
           in Inr contents))"

section \<open>Integer conversion\<close>

text \<open>
  \<open>int(s)\<close> on a string, as CPython 3.11 converts: white space is stripped at both ends,
  one sign may follow, then decimal digits, with single underscores allowed between
  digits. White space is the ASCII white space and the Unicode white space above ASCII
  (the separators \<open>0x1c\<close> to \<open>0x1f\<close> are not stripped). A digit is a decimal digit of
  any script: Unicode 14.0 has 66 runs of ten, each from the zero listed in
  \<open>DECIMAL_ZEROS\<close>. The conversion is refused when the digits are more than the limit of
  the interpreter, \<open>sys.get_int_max_str_digits()\<close>, 4300 unless set otherwise and none
  when 0; leading zeros count, underscores do not. \<open>None\<close> is \<open>ValueError\<close>.
\<close>

definition is_space :: "nat \<Rightarrow> bool" where
  "is_space c \<longleftrightarrow>
     c \<in> set [9, 10, 11, 12, 13, 32, 133, 160, 5760] \<or> (8192 \<le> c \<and> c \<le> 8202) \<or>
     c \<in> set [8232, 8233, 8239, 8287, 12288]"

definition DECIMAL_ZEROS :: "nat list" where
  "DECIMAL_ZEROS =
     [48, 1632, 1776, 1984, 2406, 2534, 2662, 2790, 2918, 3046,
      3174, 3302, 3430, 3558, 3664, 3792, 3872, 4160, 4240, 6112,
      6160, 6470, 6608, 6784, 6800, 6992, 7088, 7232, 7248, 42528,
      43216, 43264, 43472, 43504, 43600, 44016, 65296, 66720, 68912, 69734,
      69872, 69942, 70096, 70384, 70736, 70864, 71248, 71360, 71472, 71904,
      72016, 72784, 73040, 73120, 92768, 92864, 93008, 120782, 120792, 120802,
      120812, 120822, 123200, 123632, 125264, 130032]"

definition digit_value :: "nat \<Rightarrow> nat option" where
  "digit_value c = map_option (\<lambda>z. c - z) (find (\<lambda>z. z \<le> c \<and> c < z + 10) DECIMAL_ZEROS)"

definition is_digit :: "nat \<Rightarrow> bool" where
  "is_digit c \<longleftrightarrow> digit_value c \<noteq> None"

fun scan_digits :: "bool \<Rightarrow> int \<Rightarrow> str \<Rightarrow> int option" where
  "scan_digits prev acc [] = (if prev then Some acc else None)"
| "scan_digits prev acc (c # cs) =
     (case digit_value c of
        Some d \<Rightarrow> scan_digits True (acc * 10 + int d) cs
      | None \<Rightarrow> if c = 95 \<and> prev then scan_digits False acc cs else None)"

definition convert_digits :: "nat \<Rightarrow> str \<Rightarrow> int option" where
  "convert_digits max_str_digits cs =
     (if 0 < max_str_digits \<and> max_str_digits < length (filter is_digit cs) then None
      else scan_digits False 0 cs)"

definition py_int :: "nat \<Rightarrow> str \<Rightarrow> int option" where
  "py_int max_str_digits s =
     (case dropWhile is_space (rev (dropWhile is_space (rev s))) of
        [] \<Rightarrow> None
      | c # cs \<Rightarrow>
          if c = 45 then map_option uminus (convert_digits max_str_digits cs)
          else if c = 43 then convert_digits max_str_digits cs
          else convert_digits max_str_digits (c # cs))"

section \<open>The header printer\<close>

text \<open>
  What the tasks read from their surroundings: the environment variables, the column
  count \<open>os.get_terminal_size\<close> reports for the terminal (\<open>None\<close> when that call fails)
  and the interpreter's limit on the digits of a conversion.
\<close>

record world =
  environ :: "str \<rightharpoonup> str"
  tty_columns :: "nat option"
  int_max_str_digits :: nat

definition getenv :: "world \<Rightarrow> str \<Rightarrow> str \<Rightarrow> str" where
  "getenv w key dflt = (case environ w key of None \<Rightarrow> dflt | Some v \<Rightarrow> v)"

text \<open>
  The columns of \<open>shutil.get_terminal_size(fallback)\<close>: the variable \<open>COLUMNS\<close> when it
  holds a positive integer, else the terminal's columns, else the fallback.
\<close>

definition get_terminal_size_columns :: "world \<Rightarrow> int \<Rightarrow> int" where
  "get_terminal_size_columns w fallback =
     (let columns =
            (case environ w (u ''COLUMNS'') of
               None \<Rightarrow> 0
             | Some v \<Rightarrow>
                 (case py_int (int_max_str_digits w) v of None \<Rightarrow> 0 | Some n \<Rightarrow> n))
      in if columns \<le> 0
         then (case tty_columns w of
                 None \<Rightarrow> fallback
               | Some n \<Rightarrow> if n = 0 then fallback else int n)
         else columns)"

text \<open>
  \<open>str.upper\<close>, character by character, with the case mappings of Unicode 14.0 as
  CPython 3.11 has them. \<open>UPPER_RUNS\<close> lists the runs of characters with one upper-case
  character each: the first and the last character of the run, the step between its
  characters and the upper case of the first; the upper cases follow each other at a
  distance of 1. \<open>UPPER_SPECIAL\<close> lists the characters whose upper case is more than one
  character. Every other character is its own upper case.
\<close>

definition UPPER_RUNS :: "(nat \<times> nat \<times> nat \<times> nat) list" where
  "UPPER_RUNS =
     [(97, 122, 1, 65), (181, 181, 1, 924), (224, 246, 1, 192), (248, 254, 1, 216),
      (255, 255, 1, 376), (257, 303, 2, 256), (305, 305, 1, 73), (307, 311, 2, 306),
      (314, 328, 2, 313), (331, 375, 2, 330), (378, 382, 2, 377), (383, 383, 1, 83),
      (384, 384, 1, 579), (387, 389, 2, 386), (392, 392, 1, 391), (396, 396, 1, 395),
      (402, 402, 1, 401), (405, 405, 1, 502), (409, 409, 1, 408), (410, 410, 1, 573),
      (414, 414, 1, 544), (417, 421, 2, 416), (424, 424, 1, 423), (429, 429, 1, 428),
      (432, 432, 1, 431), (436, 438, 2, 435), (441, 441, 1, 440), (445, 445, 1, 444),
      (447, 447, 1, 503), (453, 453, 1, 452), (454, 454, 1, 452), (456, 456, 1, 455),
      (457, 457, 1, 455), (459, 459, 1, 458), (460, 460, 1, 458), (462, 476, 2, 461),
      (477, 477, 1, 398), (479, 495, 2, 478), (498, 498, 1, 497), (499, 499, 1, 497),
      (501, 501, 1, 500), (505, 543, 2, 504), (547, 563, 2, 546), (572, 572, 1, 571),
      (575, 576, 1, 11390), (578, 578, 1, 577), (583, 591, 2, 582), (592, 592, 1, 11375),
      (593, 593, 1, 11373), (594, 594, 1, 11376), (595, 595, 1, 385), (596, 596, 1, 390),
      (598, 599, 1, 393), (601, 601, 1, 399), (603, 603, 1, 400), (604, 604, 1, 42923),
      (608, 608, 1, 403), (609, 609, 1, 42924), (611, 611, 1, 404), (613, 613, 1, 42893),
      (614, 614, 1, 42922), (616, 616, 1, 407), (617, 617, 1, 406), (618, 618, 1, 42926),
      (619, 619, 1, 11362), (620, 620, 1, 42925), (623, 623, 1, 412), (625, 625, 1, 11374),
      (626, 626, 1, 413), (629, 629, 1, 415), (637, 637, 1, 11364), (640, 640, 1, 422),
      (642, 642, 1, 42949), (643, 643, 1, 425), (647, 647, 1, 42929), (648, 648, 1, 430),
      (649, 649, 1, 580), (650, 651, 1, 433), (652, 652, 1, 581), (658, 658, 1, 439),
      (669, 669, 1, 42930), (670, 670, 1, 42928), (837, 837, 1, 921), (881, 883, 2, 880),
      (887, 887, 1, 886), (891, 893, 1, 1021), (940, 940, 1, 902), (941, 943, 1, 904),
      (945, 961, 1, 913), (962, 962, 1, 931), (963, 971, 1, 931), (972, 972, 1, 908),
      (973, 974, 1, 910), (976, 976, 1, 914), (977, 977, 1, 920), (981, 981, 1, 934),
      (982, 982, 1, 928), (983, 983, 1, 975), (985, 1007, 2, 984), (1008, 1008, 1, 922),
      (1009, 1009, 1, 929), (1010, 1010, 1, 1017), (1011, 1011, 1, 895), (1013, 1013, 1, 917),
      (1016, 1016, 1, 1015), (1019, 1019, 1, 1018), (1072, 1103, 1, 1040),
      (1104, 1119, 1, 1024), (1121, 1153, 2, 1120), (1163, 1215, 2, 1162),
      (1218, 1230, 2, 1217), (1231, 1231, 1, 1216), (1233, 1327, 2, 1232),
      (1377, 1414, 1, 1329), (4304, 4346, 1, 7312), (4349, 4351, 1, 7357),
      (5112, 5117, 1, 5104), (7296, 7296, 1, 1042), (7297, 7297, 1, 1044),
      (7298, 7298, 1, 1054), (7299, 7300, 1, 1057), (7301, 7301, 1, 1058),
      (7302, 7302, 1, 1066), (7303, 7303, 1, 1122), (7304, 7304, 1, 42570),
      (7545, 7545, 1, 42877), (7549, 7549, 1, 11363), (7566, 7566, 1, 42950),
      (7681, 7829, 2, 7680), (7835, 7835, 1, 7776), (7841, 7935, 2, 7840),
      (7936, 7943, 1, 7944), (7952, 7957, 1, 7960), (7968, 7975, 1, 7976),
      (7984, 7991, 1, 7992), (8000, 8005, 1, 8008), (8017, 8023, 2, 8025),
      (8032, 8039, 1, 8040), (8048, 8049, 1, 8122), (8050, 8053, 1, 8136),
      (8054, 8055, 1, 8154), (8056, 8057, 1, 8184), (8058, 8059, 1, 8170),
      (8060, 8061, 1, 8186), (8112, 8113, 1, 8120), (8126, 8126, 1, 921), (8144, 8145, 1, 8152),
      (8160, 8161, 1, 8168), (8165, 8165, 1, 8172), (8526, 8526, 1, 8498),
      (8560, 8575, 1, 8544), (8580, 8580, 1, 8579), (9424, 9449, 1, 9398),
      (11312, 11359, 1, 11264), (11361, 11361, 1, 11360), (11365, 11365, 1, 570),
      (11366, 11366, 1, 574), (11368, 11372, 2, 11367), (11379, 11379, 1, 11378),
      (11382, 11382, 1, 11381), (11393, 11491, 2, 11392), (11500, 11502, 2, 11499),
      (11507, 11507, 1, 11506), (11520, 11557, 1, 4256), (11559, 11559, 1, 4295),
      (11565, 11565, 1, 4301), (42561, 42605, 2, 42560), (42625, 42651, 2, 42624),
      (42787, 42799, 2, 42786), (42803, 42863, 2, 42802), (42874, 42876, 2, 42873),
      (42879, 42887, 2, 42878), (42892, 42892, 1, 42891), (42897, 42899, 2, 42896),
      (42900, 42900, 1, 42948), (42903, 42921, 2, 42902), (42933, 42947, 2, 42932),
      (42952, 42954, 2, 42951), (42961, 42961, 1, 42960), (42967, 42969, 2, 42966),
      (42998, 42998, 1, 42997), (43859, 43859, 1, 42931), (43888, 43967, 1, 5024),
      (65345, 65370, 1, 65313), (66600, 66639, 1, 66560), (66776, 66811, 1, 66736),
      (66967, 66977, 1, 66928), (66979, 66993, 1, 66940), (66995, 67001, 1, 66956),
      (67003, 67004, 1, 66964), (68800, 68850, 1, 68736), (71872, 71903, 1, 71840),
      (93792, 93823, 1, 93760), (125218, 125251, 1, 125184)]"

definition UPPER_SPECIAL :: "(nat \<times> nat list) list" where
  "UPPER_SPECIAL =
     [(223, [83, 83]), (329, [700, 78]), (496, [74, 780]), (912, [921, 776, 769]),
      (944, [933, 776, 769]), (1415, [1333, 1362]), (7830, [72, 817]), (7831, [84, 776]),
      (7832, [87, 778]), (7833, [89, 778]), (7834, [65, 702]), (8016, [933, 787]),
      (8018, [933, 787, 768]), (8020, [933, 787, 769]), (8022, [933, 787, 834]),
      (8064, [7944, 921]), (8065, [7945, 921]), (8066, [7946, 921]), (8067, [7947, 921]),
      (8068, [7948, 921]), (8069, [7949, 921]), (8070, [7950, 921]), (8071, [7951, 921]),
      (8072, [7944, 921]), (8073, [7945, 921]), (8074, [7946, 921]), (8075, [7947, 921]),
      (8076, [7948, 921]), (8077, [7949, 921]), (8078, [7950, 921]), (8079, [7951, 921]),
      (8080, [7976, 921]), (8081, [7977, 921]), (8082, [7978, 921]), (8083, [7979, 921]),
      (8084, [7980, 921]), (8085, [7981, 921]), (8086, [7982, 921]), (8087, [7983, 921]),
      (8088, [7976, 921]), (8089, [7977, 921]), (8090, [7978, 921]), (8091, [7979, 921]),
      (8092, [7980, 921]), (8093, [7981, 921]), (8094, [7982, 921]), (8095, [7983, 921]),
      (8096, [8040, 921]), (8097, [8041, 921]), (8098, [8042, 921]), (8099, [8043, 921]),
      (8100, [8044, 921]), (8101, [8045, 921]), (8102, [8046, 921]), (8103, [8047, 921]),
      (8104, [8040, 921]), (8105, [8041, 921]), (8106, [8042, 921]), (8107, [8043, 921]),
      (8108, [8044, 921]), (8109, [8045, 921]), (8110, [8046, 921]), (8111, [8047, 921]),
      (8114, [8122, 921]), (8115, [913, 921]), (8116, [902, 921]), (8118, [913, 834]),
      (8119, [913, 834, 921]), (8124, [913, 921]), (8130, [8138, 921]), (8131, [919, 921]),
      (8132, [905, 921]), (8134, [919, 834]), (8135, [919, 834, 921]), (8140, [919, 921]),
      (8146, [921, 776, 768]), (8147, [921, 776, 769]), (8150, [921, 834]),
      (8151, [921, 776, 834]), (8162, [933, 776, 768]), (8163, [933, 776, 769]),
      (8164, [929, 787]), (8166, [933, 834]), (8167, [933, 776, 834]), (8178, [8186, 921]),
      (8179, [937, 921]), (8180, [911, 921]), (8182, [937, 834]), (8183, [937, 834, 921]),
      (8188, [937, 921]), (64256, [70, 70]), (64257, [70, 73]), (64258, [70, 76]),
      (64259, [70, 70, 73]), (64260, [70, 70, 76]), (64261, [83, 84]), (64262, [83, 84]),
      (64275, [1348, 1350]), (64276, [1348, 1333]), (64277, [1348, 1339]),
      (64278, [1358, 1350]), (64279, [1348, 1341])]"

definition upper_char :: "nat \<Rightarrow> str" where
  "upper_char c =
     (case map_of UPPER_SPECIAL c of
        Some us \<Rightarrow> us
      | None \<Rightarrow>
          (case find (\<lambda>(lo, hi, step, up). lo \<le> c \<and> c \<le> hi \<and> (c - lo) mod step = 0)
                  UPPER_RUNS of
             Some (lo, hi, step, up) \<Rightarrow> [up + (c - lo)]
           | None \<Rightarrow> [c]))"

definition py_upper :: "str \<Rightarrow> str" where
  "py_upper s = concat (map upper_char s)"

definition HEADER_LEVEL_CHARACTERS :: "int \<rightharpoonup> nat" where
  "HEADER_LEVEL_CHARACTERS =
     [1 \<mapsto> of_char CHR ''#'', 2 \<mapsto> of_char CHR ''='', 3 \<mapsto> of_char CHR ''-'']"

text \<open>
  The format field \<open>{:c^n}\<close> centres its argument in \<open>n\<close> columns with the fill
  character \<open>c\<close>; the smaller half of the fill goes to the left. \<open>format_padding\<close> is the
  whole format string, a newline on either side of that field. The width is one the
  interpreter can format: a width of \<open>2^63\<close> or more, which only \<open>COLUMNS\<close> can ask for,
  makes \<open>format\<close> raise and is outside the model.
\<close>

definition format_center :: "nat \<Rightarrow> int \<Rightarrow> str \<Rightarrow> str" where
  "format_center fill width s =
     (if width \<le> int (length s) then s
      else (let total = nat width - length s; left = total div 2
            in replicate left fill @ s @ replicate (total - left) fill))"

definition format_padding :: "nat \<Rightarrow> int \<Rightarrow> str \<Rightarrow> str" where
  "format_padding padding_character padding_length s =
     [NEWLINE] @ format_center padding_character padding_length s @ [NEWLINE]"

definition icon_with_space :: "str \<Rightarrow> str" where
  "icon_with_space icon = (if icon \<noteq> [] then icon @ u '' '' else icon)"

definition padding_length :: "world \<Rightarrow> str \<Rightarrow> int" where
  "padding_length w icon =
     (if getenv w (u ''CIRCLECI'') [] \<noteq> [] then 80
      else max (get_terminal_size_columns w 80 - int (length icon) * 2) 0)"

definition print_header :: "world \<Rightarrow> str \<Rightarrow> int \<Rightarrow> str \<Rightarrow> event list \<times> (error + unit)" where
  "print_header w text level icon0 =
     (let icon = icon_with_space icon0 in
      case HEADER_LEVEL_CHARACTERS level of
        None \<Rightarrow> ([], Inl KeyError)
      | Some padding_character \<Rightarrow>
          (let text = (if level = 1 then py_upper text else text)
           in ([Print (format_padding padding_character (padding_length w icon)
                         (u '' '' @ icon @ text @ u '' '' @ icon))],
               Inr ())))"

section \<open>The project layout registry\<close>

text \<open>
  A path is the list of its components. All paths of the module are relative: \<open>Path\<close>
  reads a relative path string, and \<open>truediv\<close> is the operator \<open>/\<close> with a relative
  right operand.
\<close>

type_synonym path = "str list"

fun split_on :: "nat \<Rightarrow> str \<Rightarrow> str list" where
  "split_on sep [] = [[]]"
| "split_on sep (c # cs) =
     (if c = sep then [] # split_on sep cs
      else (case split_on sep cs of [] \<Rightarrow> [[c]] | l # ls \<Rightarrow> (c # l) # ls))"

definition Path :: "str \<Rightarrow> path" where
  "Path s = filter (\<lambda>c. c \<noteq> [] \<and> c \<noteq> u ''.'') (split_on (of_char CHR ''/'') s)"

definition truediv :: "path \<Rightarrow> str \<Rightarrow> path" where
  "truediv p s = p @ Path s"

definition parent :: "path \<Rightarrow> path" where
  "parent p = butlast p"

definition is_relative_to :: "path \<Rightarrow> path \<Rightarrow> bool" where
  "is_relative_to p other \<longleftrightarrow> prefix other p"

record ProjectInfo =
  source_directory :: path
  tests_directory :: path
  unit_tests_directory :: path
  integration_tests_directory :: path
  tasks_directory :: path
  reports_directory :: path

definition PROJECT_INFO :: ProjectInfo where
  "PROJECT_INFO =
     (let tests = Path (u ''tests'') in
      \<lparr>source_directory = Path (u ''src''),
       tests_directory = tests,
       unit_tests_directory = truediv tests (u ''unit''),
       integration_tests_directory = truediv tests (u ''integration''),
       tasks_directory = Path (u ''tasks''),
       reports_directory = Path (u ''reports'')\<rparr>)"

section \<open>The reports directory\<close>

text \<open>
  The file system below the working directory. Each path that exists is a directory
  (\<open>Dir\<close>, also a link to one) or something else (\<open>File\<close>); the empty path is the working
  directory itself. The operating system may fail to create a directory at a path
  whatever exists there, with the error \<open>mkdir_failure\<close> gives: for want of permission,
  on a read-only file system, for want of space, in a working directory that has been
  removed. It may fail to inspect a path likewise, with the error \<open>stat_failure\<close> gives.
\<close>

datatype node = File | Dir

record filesystem =
  nodes :: "path \<rightharpoonup> node"
  mkdir_failure :: "path \<Rightarrow> error option"
  stat_failure :: "path \<Rightarrow> error option"

text \<open>
  \<open>Path.is_dir()\<close> answers false for a path that does not exist and raises the errors
  of \<open>stat\<close> it does not ignore, which are those of \<open>stat_failure\<close>.
\<close>

definition is_dir :: "filesystem \<Rightarrow> path \<Rightarrow> error + bool" where
  "is_dir fs p =
     (case stat_failure fs p of
        Some e \<Rightarrow> Inl e
      | None \<Rightarrow> Inr (p = [] \<or> nodes fs p = Some Dir))"

definition os_mkdir :: "filesystem \<Rightarrow> path \<Rightarrow> error + filesystem" where
  "os_mkdir fs p =
     (case mkdir_failure fs p of
        Some e \<Rightarrow> Inl e
      | None \<Rightarrow>
          if p = [] \<or> nodes fs p \<noteq> None then Inl FileExistsError
          else if parent p = [] \<or> nodes fs (parent p) = Some Dir
            then Inr (fs\<lparr>nodes := (nodes fs)(p \<mapsto> Dir)\<rparr>)
          else if nodes fs (parent p) = None then Inl FileNotFoundError
          else Inl NotADirectoryError)"

text \<open>\<open>Path.mkdir(parents, exist_ok)\<close>, after \<open>pathlib\<close>.\<close>

function mkdir :: "filesystem \<Rightarrow> path \<Rightarrow> bool \<Rightarrow> bool \<Rightarrow> error + filesystem" where
  "mkdir fs p parents exist_ok =
     (case os_mkdir fs p of
        Inr fs' \<Rightarrow> Inr fs'
      | Inl e \<Rightarrow>
          if e = FileNotFoundError then
            (if \<not> parents \<or> parent p = p then Inl e
             else (case mkdir fs (parent p) True True of
                     Inl e' \<Rightarrow> Inl e'
                   | Inr fs' \<Rightarrow> mkdir fs' p False exist_ok))
          else if \<not> exist_ok then Inl e
          else (case is_dir fs p of
                  Inl e' \<Rightarrow> Inl e'
                | Inr d \<Rightarrow> if d then Inr fs else Inl e))"
  by pat_completeness auto
termination
proof (relation "measures [\<lambda>(fs, p, parents, exist_ok). length p,
    \<lambda>(fs, p, parents, exist_ok). if parents then 1 else 0]")
  show "wf (measures [\<lambda>(fs, p, parents, exist_ok). length p,
    \<lambda>(fs, p, parents, exist_ok). if parents then 1 else (0::nat)])"
    by simp
next
  fix fs :: filesystem and p :: path and parents exist_ok :: bool and e :: error
  assume "\<not> (\<not> parents \<or> parent p = p)"
  then have "p \<noteq> []" by (auto simp: parent_def)
  then show "((fs, parent p, True, True), (fs, p, parents, exist_ok))
    \<in> measures [\<lambda>(fs, p, parents, exist_ok). length p,
        \<lambda>(fs, p, parents, exist_ok). if parents then 1 else 0]"
    by (simp add: parent_def)
next
  fix fs fs' :: filesystem and p :: path and parents exist_ok :: bool and e :: error
  assume "\<not> (\<not> parents \<or> parent p = p)"
  then show "((fs', p, False, exist_ok), (fs, p, parents, exist_ok))
    \<in> measures [\<lambda>(fs, p, parents, exist_ok). length p,
        \<lambda>(fs, p, parents, exist_ok). if parents then 1 else 0]"
    by simp
qed

declare mkdir.simps [simp del]

definition ensure_reports_dir :: "filesystem \<Rightarrow> error + filesystem" where
  "ensure_reports_dir fs = mkdir fs (reports_directory PROJECT_INFO) True True"

section \<open>The environment switcher\<close>

definition startswith :: "str \<Rightarrow> str \<Rightarrow> bool" where
  "startswith s pre \<longleftrightarrow> prefix pre s"

fun join :: "str \<Rightarrow> str list \<Rightarrow> str" where
  "join sep [] = []"
| "join sep [x] = x"
| "join sep (x # y # ys) = x @ sep @ join sep (y # ys)"

text \<open>
  The sort key of line 90, \<open>list(map(int, value.split(".")))\<close>: \<open>None\<close> when a
  component does not convert.
\<close>

definition version_key :: "nat \<Rightarrow> str \<Rightarrow> int list option" where
  "version_key max_str_digits v =
     those (map (py_int max_str_digits) (split_on (of_char CHR ''.'') v))"

text \<open>
  \<open>sorted(versions, key=...)\<close> computes the key of every element first, so one key that
  fails raises before anything is ordered; the sort is stable and lists of integers
  compare lexicographically.
\<close>

definition sorted_versions :: "nat \<Rightarrow> str list \<Rightarrow> error + str list" where
  "sorted_versions max_str_digits vs =
     (case those (map (version_key max_str_digits) vs) of
        None \<Rightarrow> Inl ValueError
      | Some ks \<Rightarrow> Inr (map snd (sort_key fst (zip ks vs))))"

definition installed_versions :: "str \<Rightarrow> str list" where
  "installed_versions stdout = filter (\<lambda>l. l \<noteq> []) (split_on NEWLINE stdout)"

definition found_notice :: "str \<Rightarrow> str" where
  "found_notice v =
     HEAVY_CHECK_MARK # u '' Found pyenv Python version '' @ [39] @ v @ [39] @ u ''.'' @ [NEWLINE]"

definition not_found_notice :: "str \<Rightarrow> str" where
  "not_found_notice version =
     CROSS_MARK # u '' No pyenv Python version matching Python '' @ version @ u '' found.''
       @ [NEWLINE]"

definition guidance :: "str list \<Rightarrow> str" where
  "guidance python_versions =
     (let available_python_versions = join (u '', '') (map (\<lambda>v. [39] @ v @ [39]) python_versions)
      in u ''Available versions: '' @ available_python_versions @ u ''.'' @ [NEWLINE]
         @ u ''See all installable versions with:'' @ [NEWLINE]
         @ [9] @ u ''pyenv install --list'' @ [NEWLINE]
         @ u ''and install it with:'' @ [NEWLINE]
         @ [9] @ u ''pyenv install <PYTHON_VERSION>'')"

definition list_command :: str where
  "list_command = u ''pyenv versions --bare''"

definition switch_command :: "str \<Rightarrow> str" where
  "switch_command v =
     u ''source deactivate; git clean -fxd .venv && pyenv local '' @ v @ u '' && poetry install''"

text \<open>
  The loop of lines 93 to 96 over the sorted versions, with the variable
  \<open>pyenv_python_version\<close> and the notices written so far as its state.
\<close>

fun scan_versions :: "str \<Rightarrow> str list \<Rightarrow> str option \<times> event list \<Rightarrow> str option \<times> event list" where
  "scan_versions version [] st = st"
| "scan_versions version (python_version # rest) (pyenv_python_version, out) =
     (if startswith python_version version
      then scan_versions version rest
             (Some python_version, out @ [Secho (found_notice python_version) Green])
      else scan_versions version rest (pyenv_python_version, out))"

text \<open>
  \<open>ctx.run\<close> is a function from the command to the captured standard output, or to the
  error it raises when the command fails.
\<close>

type_synonym run_context = "str \<Rightarrow> error + str"

definition switch_python_version :: "world \<Rightarrow> run_context \<Rightarrow> str \<Rightarrow> event list \<times> (error + unit)" where
  "switch_python_version w ctx version =
     (case print_header w (u ''Switching to Python '' @ version) 1 [SNAKE] of
        (header, Inl e) \<Rightarrow> (header, Inl e)
      | (header, Inr _) \<Rightarrow>
          (let out = header @ [Run list_command False (Some HideStdout)] in
           case ctx list_command of
             Inl e \<Rightarrow> (out, Inl e)
           | Inr stdout \<Rightarrow>
               (case sorted_versions (int_max_str_digits w) (installed_versions stdout) of
                  Inl e \<Rightarrow> (out, Inl e)
                | Inr python_versions \<Rightarrow>
                    (case scan_versions version python_versions (None, []) of
                       (pyenv_python_version, notices) \<Rightarrow>
                         (case pyenv_python_version of
                            Some v \<Rightarrow>
                              if v \<noteq> [] then
                                (out @ notices @ [Run (switch_command v) True None],
                                 case ctx (switch_command v) of
                                   Inl e \<Rightarrow> Inl e
                                 | Inr _ \<Rightarrow> Inr ())
                              else
                                (out @ notices
                                   @ [Secho (not_found_notice version) Red,
                                      Print (guidance python_versions)],
                                 Inl (Exit None None))
                          | None \<Rightarrow>
                              (out @ notices
                                 @ [Secho (not_found_notice version) Red,
                                    Print (guidance python_versions)],
                               Inl (Exit None None)))))))"

section \<open>Versions written as integers\<close>

text \<open>
  A version as the specification reads it, a sequence of integers, and its usual
  writing: each integer in decimal, with dots between them.
\<close>

function decimal_string :: "nat \<Rightarrow> str" where
  "decimal_string n =
     (if n < 10 then [48 + n] else decimal_string (n div 10) @ [48 + n mod 10])"
  by pat_completeness auto
termination
  by (relation "measure (\<lambda>n. n)") simp_all

declare decimal_string.simps [simp del]

definition render_version :: "nat list \<Rightarrow> str" where
  "render_version ns = join (u ''.'') (map decimal_string ns)"

text \<open>An integer the interpreter converts back: its digits are within the limit.\<close>

definition within_limit :: "world \<Rightarrow> nat \<Rightarrow> bool" where
  "within_limit w n \<longleftrightarrow>
     int_max_str_digits w = 0 \<or> length (decimal_string n) \<le> int_max_str_digits w"

section \<open>Example inputs\<close>

text \<open>
  A terminal of 80 columns, no environment variable set, the interpreter's digit limit
  as it is by default.
\<close>

definition w80 :: world where
  "w80 = \<lparr>environ = Map.empty, tty_columns = Some 80, int_max_str_digits = 4300\<rparr>"

text \<open>Outputs of \<open>pyenv versions --bare\<close>.\<close>

definition stdout_36 :: str where
  "stdout_36 = u ''3.6.1'' @ [NEWLINE] @ u ''3.6.9'' @ [NEWLINE] @ u ''3.9.0'' @ [NEWLINE]"

definition stdout_10 :: str where
  "stdout_10 = u ''3.6.10'' @ [NEWLINE] @ u ''3.6.9'' @ [NEWLINE] @ u ''3.9.0'' @ [NEWLINE]"

definition stdout_dev :: str where
  "stdout_dev = u ''2.7.18'' @ [NEWLINE] @ u ''3.9-dev'' @ [NEWLINE]"

definition stdout_x :: str where
  "stdout_x = u ''3.6.1'' @ [NEWLINE] @ u ''3.x.0'' @ [NEWLINE]"

text \<open>Contexts whose every command succeeds with that output.\<close>

definition ctx_36 :: run_context where
  "ctx_36 = (\<lambda>c. Inr stdout_36)"

definition ctx_10 :: run_context where
  "ctx_10 = (\<lambda>c. Inr stdout_10)"

definition ctx_dev :: run_context where
  "ctx_dev = (\<lambda>c. Inr stdout_dev)"

definition ctx_x :: run_context where
  "ctx_x = (\<lambda>c. Inr stdout_x)"

text \<open>
  File systems where the operating system fails nothing: an empty one, and one where
  \<open>reports\<close> is a file.
\<close>

definition fs_empty :: filesystem where
  "fs_empty = \<lparr>nodes = Map.empty, mkdir_failure = (\<lambda>p. None), stat_failure = (\<lambda>p. None)\<rparr>"

definition fs_file :: filesystem where
  "fs_file = fs_empty\<lparr>nodes := [[u ''reports''] \<mapsto> File]\<rparr>"

text \<open>A file with the line endings of another system.\<close>

definition crlf_text :: str where
  "crlf_text =
     u ''line1'' @ [CARRIAGE_RETURN, NEWLINE] @ u ''line2'' @ [CARRIAGE_RETURN, NEWLINE]"

section \<open>Properties of the message formatter\<close>

lemma matches_mono: "matches fl r s i j \<Longrightarrow> i \<le> j \<and> (j \<le> length s \<or> j = i)"
  by (induction rule: matches.induct) auto

lemma ends_sound: "j \<in> set (ends fl r s i) \<Longrightarrow> matches fl r s i j"
proof (induction fl r s i arbitrary: j rule: ends.induct)
  case (6 fl a b s i)
  then show ?case by (auto intro: matches.intros)
next
  case (8 fl a s i)
  from "8.prems" have "j = i \<or> (\<exists>k \<in> set (ends fl a s i). i < k \<and> k \<le> length s
      \<and> j \<in> set (ends fl (Star a) s k))"
    by (subst (asm) ends.simps(8)) auto
  then show ?case
  proof
    assume "j = i"
    then show ?thesis by (simp add: m_Star0)
  next
    assume "\<exists>k \<in> set (ends fl a s i). i < k \<and> k \<le> length s
      \<and> j \<in> set (ends fl (Star a) s k)"
    then obtain k where k: "k \<in> set (ends fl a s i)" "i < k" "k \<le> length s"
      "j \<in> set (ends fl (Star a) s k)" by blast
    from k have "matches fl a s i k" by (intro "8.IH"(1))
    moreover from k have "matches fl (Star a) s k j" by (intro "8.IH"(2)) auto
    ultimately show ?thesis by (rule m_StarS)
  qed
qed (auto intro: matches.intros split: if_splits)

lemma ends_complete: "matches fl r s i j \<Longrightarrow> j \<in> set (ends fl r s i)"
proof (induction rule: matches.induct)
  case (m_Star0 fl a s i)
  show ?case by (subst ends.simps(8)) simp
next
  case (m_StarS fl a s i k j)
  have bnd: "i \<le> k \<and> (k \<le> length s \<or> k = i)"
    using m_StarS.hyps(1) by (rule matches_mono)
  show ?case
  proof (cases "k = i")
    case True
    with m_StarS.IH(2) show ?thesis by simp
  next
    case False
    with bnd have "i < k" "k \<le> length s" by auto
    with m_StarS.IH show ?thesis by (subst ends.simps(8)) auto
  qed
qed auto

lemma ends_iff: "j \<in> set (ends fl r s i) \<longleftrightarrow> matches fl r s i j"
  by (blast intro: ends_sound ends_complete)

lemma re_match_iff: "re_match r s fl \<longleftrightarrow> (\<exists>j. matches fl r s 0 j)"
proof -
  have "ends fl r s 0 \<noteq> [] \<longleftrightarrow> (\<exists>j. j \<in> set (ends fl r s 0))"
    by (cases "ends fl r s 0") auto
  then show ?thesis by (simp add: re_match_def ends_iff)
qed

text \<open>
  Claim C1, as the code has it: \<open>format_messages\<close> writes the success notice exactly when
  the pattern matches at the start of the message, that is when it matches the part of
  the message from position 0 up to some position, with \<open>.\<close> taking newlines as well;
  otherwise it prints the message as it is. The match need not reach the end of the
  message.
\<close>

theorem format_messages_prefix_match:
  "format_messages messages success_pattern =
     (if \<exists>j. matches \<lparr>DOTALL = True\<rparr> success_pattern messages 0 j
      then [Secho NO_ISSUES_FOUND Green]
      else [Print messages])"
  by (simp add: format_messages_def re_match_iff)

theorem format_messages_prefix_match_witness:
  "format_messages (u ''ab'') (Chr 97) = [Secho NO_ISSUES_FOUND Green]
   \<and> format_messages (u ''ba'') (Chr 97) = [Print (u ''ba'')]"
proof -
  have "matches \<lparr>DOTALL = True\<rparr> (Chr 97) (u ''ab'') 0 (Suc 0)"
    by (rule m_Chr) (simp_all add: u_def)
  then have yes: "\<exists>j. matches \<lparr>DOTALL = True\<rparr> (Chr 97) (u ''ab'') 0 j" ..
  have no: "\<not> (\<exists>j. matches \<lparr>DOTALL = True\<rparr> (Chr 97) (u ''ba'') 0 j)"
    by (simp add: ends_iff [symmetric] u_def)
  have "format_messages (u ''ab'') (Chr 97) = [Secho NO_ISSUES_FOUND Green]"
    by (subst format_messages_prefix_match) (simp add: yes)
  moreover have "format_messages (u ''ba'') (Chr 97) = [Print (u ''ba'')]"
    by (subst format_messages_prefix_match) (simp add: no)
  ultimately show ?thesis ..
qed

text \<open>
  Claim C1 as it is written fails: the pattern \<open>a\<close> does not match the whole of the
  message \<open>ab\<close>, and the success notice is written all the same.
\<close>

theorem format_messages_fullmatch_counterexample:
  "\<not> (format_messages (u ''ab'') (Chr 97) = [Secho NO_ISSUES_FOUND Green]
        \<longleftrightarrow> re_fullmatch (Chr 97) (u ''ab'') \<lparr>DOTALL = True\<rparr>)"
  by (simp add: format_messages_def re_match_def re_fullmatch_def u_def)

text \<open>
  Claim C9: with the default pattern \<open>^$\<close> the message that is a single newline gets the
  success notice, since \<open>$\<close> also holds just before a newline that ends the string. So
  the notice is written for a message that is not empty.
\<close>

theorem format_messages_single_newline:
  "format_messages [NEWLINE] default_success_pattern = [Secho NO_ISSUES_FOUND Green]
   \<and> [NEWLINE] \<noteq> []"
  by (simp add: format_messages_def re_match_def default_success_pattern_def)

text \<open>The two examples of the default pattern: the empty message and a warning.\<close>

lemma format_messages_default_examples:
  "format_messages [] default_success_pattern = [Secho NO_ISSUES_FOUND Green]"
  "format_messages (u ''some warning'') default_success_pattern = [Print (u ''some warning'')]"
  by (simp_all add: format_messages_def re_match_def default_success_pattern_def u_def)

section \<open>Properties of the header printer\<close>

lemma getenv_truthy:
  "getenv w key [] \<noteq> [] \<longleftrightarrow> (\<exists>v. environ w key = Some v \<and> v \<noteq> [])"
  by (simp add: getenv_def split: option.splits)

lemma length_icon_with_space:
  "length (icon_with_space icon) = length icon + (if icon = [] then 0 else 1)"
  by (simp add: icon_with_space_def u_def)

lemma length_format_center:
  "length (format_center fill width s) = max (nat width) (length s)"
  by (auto simp: format_center_def Let_def)

text \<open>
  Claim C5, as the code has it: for a level that has a border character, the width the
  header is centred in is 80 when the variable \<open>CIRCLECI\<close> is set to a non-empty string;
  otherwise it is the column count of \<open>shutil.get_terminal_size((80, 20))\<close>, which is 80
  when neither \<open>COLUMNS\<close> nor the terminal gives one, minus twice the length of the icon
  as it is printed, that is the icon with the space appended to it when it is not empty,
  and 0 when that difference is negative.
\<close>

theorem print_header_padding_length:
  assumes "HEADER_LEVEL_CHARACTERS level = Some c"
  shows "padding_length w (icon_with_space icon) =
      (if \<exists>v. environ w (u ''CIRCLECI'') = Some v \<and> v \<noteq> [] then 80
       else max (get_terminal_size_columns w 80
                 - 2 * (int (length icon) + (if icon = [] then 0 else 1))) 0)
    \<and> print_header w text level icon =
        ([Print (format_padding c (padding_length w (icon_with_space icon))
           (u '' '' @ icon_with_space icon @ (if level = 1 then py_upper text else text)
              @ u '' '' @ icon_with_space icon))], Inr ())
    \<and> (environ w (u ''COLUMNS'') = None \<and> tty_columns w = None
          \<longrightarrow> get_terminal_size_columns w 80 = 80)"
proof (intro conjI)
  show "padding_length w (icon_with_space icon) =
      (if \<exists>v. environ w (u ''CIRCLECI'') = Some v \<and> v \<noteq> [] then 80
       else max (get_terminal_size_columns w 80
                 - 2 * (int (length icon) + (if icon = [] then 0 else 1))) 0)"
    unfolding padding_length_def getenv_truthy length_icon_with_space
    by (auto simp: algebra_simps)
  show "print_header w text level icon =
        ([Print (format_padding c (padding_length w (icon_with_space icon))
           (u '' '' @ icon_with_space icon @ (if level = 1 then py_upper text else text)
              @ u '' '' @ icon_with_space icon))], Inr ())"
    using assms by (simp add: print_header_def Let_def)
  show "environ w (u ''COLUMNS'') = None \<and> tty_columns w = None
          \<longrightarrow> get_terminal_size_columns w 80 = 80"
    by (simp add: get_terminal_size_columns_def)
qed

text \<open>
  Claim C5 as it is written fails: with the one-character icon and 80 columns the width is
  76, not 80 minus twice the length of the icon.
\<close>

theorem print_header_padding_length_counterexample:
  "padding_length w80 (icon_with_space [SNAKE]) = 76
   \<and> max (get_terminal_size_columns w80 80 - 2 * int (length [SNAKE])) 0 = 78
   \<and> print_header w80 (u ''ab'') 2 [SNAKE] =
       ([Print (format_padding (of_char CHR ''='') 76 (u '' '' @ [SNAKE] @ u '' ab '' @ [SNAKE] @ u '' ''))],
        Inr ())"
  by (simp add: padding_length_def icon_with_space_def getenv_def get_terminal_size_columns_def
      w80_def print_header_def HEADER_LEVEL_CHARACTERS_def u_def)

theorem print_header_padding_length_witness:
  "padding_length w80 (icon_with_space [SNAKE]) = 76
   \<and> padding_length (w80\<lparr>environ := [u ''CIRCLECI'' \<mapsto> u ''true'']\<rparr>) (icon_with_space [SNAKE]) = 80"
proof -
  have l: "HEADER_LEVEL_CHARACTERS 2 = Some (of_char CHR ''='')"
    by (simp add: HEADER_LEVEL_CHARACTERS_def)
  have "padding_length w80 (icon_with_space [SNAKE]) = 76"
    by (subst print_header_padding_length [OF l, THEN conjunct1])
      (simp add: w80_def get_terminal_size_columns_def)
  moreover have "padding_length (w80\<lparr>environ := [u ''CIRCLECI'' \<mapsto> u ''true'']\<rparr>)
      (icon_with_space [SNAKE]) = 80"
    by (subst print_header_padding_length [OF l, THEN conjunct1])
      (simp add: w80_def u_def)
  ultimately show ?thesis ..
qed

text \<open>
  Claim C6: \<open>print_header\<close> takes \<open>#\<close> as border character at level 1, \<open>=\<close> at level 2 and
  \<open>-\<close> at level 3; at any other level it raises \<open>KeyError\<close> and has printed nothing.
\<close>

theorem print_header_level:
  "print_header w text level icon =
     (if level = 1 \<or> level = 2 \<or> level = 3 then
        ([Print (format_padding
            (if level = 1 then of_char CHR ''#'' else if level = 2 then of_char CHR ''=''
             else of_char CHR ''-'')
            (padding_length w (icon_with_space icon))
            (u '' '' @ icon_with_space icon @ (if level = 1 then py_upper text else text)
               @ u '' '' @ icon_with_space icon))], Inr ())
      else ([], Inl KeyError))"
  by (simp add: print_header_def HEADER_LEVEL_CHARACTERS_def Let_def)

section \<open>Properties of the project layout\<close>

lemma truediv_is_relative_to: "is_relative_to (truediv p s) p"
  by (simp add: is_relative_to_def truediv_def)

text \<open>
  Claim C7: in \<open>PROJECT_INFO\<close> the directories of the unit tests and of the integration
  tests lie below the tests directory. \<open>PROJECT_INFO\<close> is a constant: no function of the
  module assigns to it.
\<close>

theorem PROJECT_INFO_tests_subpaths:
  "is_relative_to (unit_tests_directory PROJECT_INFO) (tests_directory PROJECT_INFO)
   \<and> is_relative_to (integration_tests_directory PROJECT_INFO) (tests_directory PROJECT_INFO)
   \<and> unit_tests_directory PROJECT_INFO = [u ''tests'', u ''unit'']
   \<and> integration_tests_directory PROJECT_INFO = [u ''tests'', u ''integration'']
   \<and> tests_directory PROJECT_INFO = [u ''tests'']"
  by (simp add: PROJECT_INFO_def Let_def truediv_is_relative_to)
    (simp add: truediv_def Path_def u_def)

section \<open>Properties of the text reader\<close>

lemma concat_readlines: "concat (readlines s) = s"
  by (induction s) (auto split: list.splits)

lemma rstrip_spec:
  "\<exists>k. s = rstrip s [c] @ replicate k c \<and> (rstrip s [c] = [] \<or> last (rstrip s [c]) \<noteq> c)"
proof -
  let ?P = "\<lambda>x. x = c"
  have split: "rev s = takeWhile ?P (rev s) @ dropWhile ?P (rev s)" by simp
  have tw: "takeWhile ?P (rev s) = replicate (length (takeWhile ?P (rev s))) c"
    by (rule replicate_eqI) (auto dest: set_takeWhileD)
  have "s = rev (dropWhile ?P (rev s)) @ rev (takeWhile ?P (rev s))"
    by (metis split rev_append rev_rev_ident)
  also have "rev (takeWhile ?P (rev s)) = replicate (length (takeWhile ?P (rev s))) c"
    by (metis tw rev_replicate)
  finally have eq: "s = rstrip s [c] @ replicate (length (takeWhile ?P (rev s))) c"
    by (simp add: rstrip_def)
  have "dropWhile ?P (rev s) = [] \<or> hd (dropWhile ?P (rev s)) \<noteq> c"
    using hd_dropWhile [of ?P "rev s"] by blast
  then have "rstrip s [c] = [] \<or> last (rstrip s [c]) \<noteq> c"
    by (auto simp: rstrip_def last_rev)
  with eq show ?thesis by blast
qed

lemma universal_newlines_no_cr:
  "CARRIAGE_RETURN \<notin> set s \<Longrightarrow> universal_newlines s = s"
  by (induction s rule: universal_newlines.induct) auto

lemma universal_newlines_has_no_cr:
  "CARRIAGE_RETURN \<notin> set (universal_newlines s)"
  by (induction s rule: universal_newlines.induct) (auto simp: CARRIAGE_RETURN_def NEWLINE_def)

text \<open>
  Claim C4, as the code has it: for a file that can be read, \<open>read_contents\<close> with the
  flag false returns the text of the file with its line endings translated, a carriage
  return and line feed or a carriage return alone to one line feed. With the flag true
  it returns the string \<open>r\<close> such that the translated text is \<open>r\<close> followed by newlines
  only and \<open>r\<close> does not end in a newline: every trailing newline is removed and nothing
  else is. For a file without carriage returns the translated text is the text of the
  file.
\<close>

theorem read_contents_universal_newlines:
  assumes "open_text fpath = Inr raw"
  shows "read_contents open_text fpath False = Inr (universal_newlines raw)
    \<and> (\<exists>r k. read_contents open_text fpath True = Inr r
          \<and> universal_newlines raw = r @ replicate k NEWLINE \<and> (r = [] \<or> last r \<noteq> NEWLINE))
    \<and> (CARRIAGE_RETURN \<notin> set raw \<longrightarrow> universal_newlines raw = raw)"
  using assms rstrip_spec [of "universal_newlines raw" NEWLINE]
  by (simp add: read_contents_def concat_readlines universal_newlines_no_cr)

theorem read_contents_universal_newlines_witness:
  "read_contents (\<lambda>p. Inr (u ''line1'' @ [NEWLINE] @ u ''line2'' @ [NEWLINE])) (u ''f'') False
     = Inr (u ''line1'' @ [NEWLINE] @ u ''line2'' @ [NEWLINE])
   \<and> read_contents (\<lambda>p. Inr (u ''line1'' @ [NEWLINE] @ u ''line2'' @ [NEWLINE])) (u ''f'') True
     = Inr (u ''line1'' @ [NEWLINE] @ u ''line2'')"
proof -
  let ?c = "u ''line1'' @ [NEWLINE] @ u ''line2'' @ [NEWLINE]"
  have nocr: "CARRIAGE_RETURN \<notin> set ?c"
    by (simp add: u_def NEWLINE_def CARRIAGE_RETURN_def)
  have inst: "read_contents (\<lambda>p. Inr ?c) (u ''f'') False = Inr (universal_newlines ?c)
      \<and> (\<exists>r k. read_contents (\<lambda>p. Inr ?c) (u ''f'') True = Inr r
          \<and> universal_newlines ?c = r @ replicate k NEWLINE \<and> (r = [] \<or> last r \<noteq> NEWLINE))
      \<and> (CARRIAGE_RETURN \<notin> set ?c \<longrightarrow> universal_newlines ?c = ?c)"
    by (rule read_contents_universal_newlines) simp
  from inst nocr have same: "universal_newlines ?c = ?c" by blast
  from inst have "read_contents (\<lambda>p. Inr ?c) (u ''f'') False = Inr (universal_newlines ?c)"
    by blast
  with same have "read_contents (\<lambda>p. Inr ?c) (u ''f'') False = Inr ?c" by simp
  moreover have "read_contents (\<lambda>p. Inr ?c) (u ''f'') True = Inr (u ''line1'' @ [NEWLINE] @ u ''line2'')"
    by (simp add: read_contents_def rstrip_def u_def NEWLINE_def CARRIAGE_RETURN_def)
  ultimately show ?thesis by blast
qed

text \<open>
  Claim C4 as it is written fails: a file whose lines end in carriage return and line
  feed is not returned unchanged with the flag false.
\<close>

theorem read_contents_crlf_counterexample:
  "read_contents (\<lambda>p. Inr crlf_text) (u ''f'') False
     = Inr (u ''line1'' @ [NEWLINE] @ u ''line2'' @ [NEWLINE])
   \<and> u ''line1'' @ [NEWLINE] @ u ''line2'' @ [NEWLINE] \<noteq> crlf_text"
  by (simp add: read_contents_def crlf_text_def u_def NEWLINE_def CARRIAGE_RETURN_def)

section \<open>Properties of the reports directory\<close>

lemma reports_directory_eq: "reports_directory PROJECT_INFO = [u ''reports'']"
  by (simp add: PROJECT_INFO_def Let_def Path_def u_def)

lemma mkdir_single_created:
  "mkdir_failure fs [x] = None \<Longrightarrow> nodes fs [x] = None \<Longrightarrow>
   mkdir fs [x] True True = Inr (fs\<lparr>nodes := (nodes fs)([x] \<mapsto> Dir)\<rparr>)"
  by (subst mkdir.simps) (simp add: os_mkdir_def parent_def)

lemma mkdir_single_exists:
  "mkdir_failure fs [x] \<noteq> Some FileNotFoundError \<Longrightarrow> nodes fs [x] = Some n \<Longrightarrow>
   mkdir fs [x] True True =
     (case is_dir fs [x] of
        Inl e \<Rightarrow> Inl e
      | Inr d \<Rightarrow>
          if d then Inr fs
          else Inl (case mkdir_failure fs [x] of None \<Rightarrow> FileExistsError | Some e \<Rightarrow> e))"
  by (subst mkdir.simps) (auto simp: os_mkdir_def split: option.splits sum.splits)

lemma mkdir_single_refused:
  "mkdir_failure fs [x] = Some e \<Longrightarrow> e \<noteq> FileNotFoundError \<Longrightarrow> nodes fs [x] = None \<Longrightarrow>
   stat_failure fs [x] = None \<Longrightarrow> mkdir fs [x] True True = Inl e"
  by (subst mkdir.simps) (simp add: os_mkdir_def is_dir_def)

text \<open>
  Claim C8, as the code has it, for a file system that lets \<open>reports\<close> be inspected. When
  \<open>reports\<close> is a directory, \<open>ensure_reports_dir\<close> succeeds and changes nothing, also
  where \<open>os.mkdir\<close> reports another error than that the path exists (that it is not
  found it cannot report of a directory that is there). When \<open>reports\<close> does not exist
  and the operating system does not fail to create it, the call succeeds, \<open>reports\<close> is a
  directory afterwards and nothing else has changed, and a second call succeeds and
  changes nothing.
\<close>

theorem ensure_reports_dir_idempotent:
  assumes "stat_failure fs (reports_directory PROJECT_INFO) = None"
  shows "(nodes fs (reports_directory PROJECT_INFO) = Some Dir
          \<and> mkdir_failure fs (reports_directory PROJECT_INFO) \<noteq> Some FileNotFoundError
            \<longrightarrow> ensure_reports_dir fs = Inr fs)
    \<and> (nodes fs (reports_directory PROJECT_INFO) = None
          \<and> mkdir_failure fs (reports_directory PROJECT_INFO) = None
        \<longrightarrow> ensure_reports_dir fs
              = Inr (fs\<lparr>nodes := (nodes fs)(reports_directory PROJECT_INFO \<mapsto> Dir)\<rparr>)
          \<and> ensure_reports_dir
                (fs\<lparr>nodes := (nodes fs)(reports_directory PROJECT_INFO \<mapsto> Dir)\<rparr>)
              = Inr (fs\<lparr>nodes := (nodes fs)(reports_directory PROJECT_INFO \<mapsto> Dir)\<rparr>))"
proof (intro conjI impI)
  assume "nodes fs (reports_directory PROJECT_INFO) = Some Dir
      \<and> mkdir_failure fs (reports_directory PROJECT_INFO) \<noteq> Some FileNotFoundError"
  then show "ensure_reports_dir fs = Inr fs"
    using assms
    by (simp add: ensure_reports_dir_def reports_directory_eq mkdir_single_exists is_dir_def)
next
  assume h: "nodes fs (reports_directory PROJECT_INFO) = None
      \<and> mkdir_failure fs (reports_directory PROJECT_INFO) = None"
  then show "ensure_reports_dir fs
      = Inr (fs\<lparr>nodes := (nodes fs)(reports_directory PROJECT_INFO \<mapsto> Dir)\<rparr>)"
    by (simp add: ensure_reports_dir_def reports_directory_eq mkdir_single_created)
  from h assms show "ensure_reports_dir
        (fs\<lparr>nodes := (nodes fs)(reports_directory PROJECT_INFO \<mapsto> Dir)\<rparr>)
      = Inr (fs\<lparr>nodes := (nodes fs)(reports_directory PROJECT_INFO \<mapsto> Dir)\<rparr>)"
    by (simp add: ensure_reports_dir_def reports_directory_eq mkdir_single_exists is_dir_def)
qed

theorem ensure_reports_dir_idempotent_witness:
  "ensure_reports_dir fs_empty
     = Inr (fs_empty\<lparr>nodes := (nodes fs_empty)(reports_directory PROJECT_INFO \<mapsto> Dir)\<rparr>)
   \<and> ensure_reports_dir
        (fs_empty\<lparr>nodes := (nodes fs_empty)(reports_directory PROJECT_INFO \<mapsto> Dir)\<rparr>)
     = Inr (fs_empty\<lparr>nodes := (nodes fs_empty)(reports_directory PROJECT_INFO \<mapsto> Dir)\<rparr>)"
proof -
  have a: "stat_failure fs_empty (reports_directory PROJECT_INFO) = None"
    by (simp add: fs_empty_def)
  have b: "nodes fs_empty (reports_directory PROJECT_INFO) = None
      \<and> mkdir_failure fs_empty (reports_directory PROJECT_INFO) = None"
    by (simp add: fs_empty_def)
  from ensure_reports_dir_idempotent [OF a, THEN conjunct2, THEN mp, OF b]
  show ?thesis .
qed

text \<open>
  Claim C8 as it is written fails: when \<open>reports\<close> exists and is a file, the call raises
  \<open>FileExistsError\<close> and creates no directory.
\<close>

theorem ensure_reports_dir_file_counterexample:
  "ensure_reports_dir fs_file = Inl FileExistsError"
  by (simp add: ensure_reports_dir_def reports_directory_eq mkdir_single_exists is_dir_def
      fs_file_def fs_empty_def)

text \<open>
  Nor does the call succeed where the operating system fails to create the directory:
  in a working directory that cannot be written to it raises \<open>PermissionError\<close>.
\<close>

lemma ensure_reports_dir_unwritable:
  "ensure_reports_dir (fs_empty\<lparr>mkdir_failure := (\<lambda>p. Some PermissionError)\<rparr>)
     = Inl PermissionError"
  by (simp add: ensure_reports_dir_def reports_directory_eq mkdir_single_refused fs_empty_def)

section \<open>Properties of the environment switcher\<close>

lemma those_map_None: "those (map f xs) = None \<longleftrightarrow> (\<exists>x\<in>set xs. f x = None)"
  by (induction xs) (auto split: option.splits)

lemma those_map_Some: "those (map f xs) = Some ys \<Longrightarrow> ys = map (\<lambda>x. the (f x)) xs"
  by (induction xs arbitrary: ys) (auto split: option.splits)

lemma insort_key_decorated:
  "\<forall>p\<in>set ps. fst p = k (snd p) \<Longrightarrow>
   map snd (insort_key fst (k v, v) ps) = insort_key k v (map snd ps)"
  by (induction ps) auto

lemma sort_key_decorated:
  "map snd (sort_key fst (map (\<lambda>v. (k v, v)) vs)) = sort_key k vs"
proof (induction vs)
  case Nil
  show ?case by simp
next
  case (Cons v vs)
  have inv: "\<forall>p\<in>set (sort_key fst (map (\<lambda>v. (k v, v)) vs)). fst p = k (snd p)"
    by auto
  show ?case
    using insort_key_decorated [OF inv, of v] Cons.IH by simp
qed

lemma zip_map_self: "zip (map k vs) vs = map (\<lambda>v. (k v, v)) vs"
  by (induction vs) auto

lemma sorted_versions_eq:
  "sorted_versions lim vs =
     (if \<exists>v\<in>set vs. version_key lim v = None then Inl ValueError
      else Inr (sort_key (\<lambda>v. the (version_key lim v)) vs))"
proof (cases "those (map (version_key lim) vs)")
  case None
  then have "\<exists>v\<in>set vs. version_key lim v = None"
    by (simp add: those_map_None)
  with None show ?thesis by (simp add: sorted_versions_def)
next
  case (Some ks)
  then have "\<not> (\<exists>v\<in>set vs. version_key lim v = None)"
    using those_map_None [of "version_key lim" vs] by simp
  moreover from Some have "ks = map (\<lambda>v. the (version_key lim v)) vs"
    by (rule those_map_Some)
  ultimately show ?thesis
    using Some by (simp add: sorted_versions_def zip_map_self sort_key_decorated)
qed

lemma version_key_None:
  "version_key lim v = None \<longleftrightarrow> (\<exists>c\<in>set (split_on (of_char CHR ''.'') v). py_int lim c = None)"
  by (simp add: version_key_def those_map_None)

lemma scan_versions_eq:
  "scan_versions version vs (found, out) =
     (case filter (\<lambda>v. startswith v version) vs of
        [] \<Rightarrow> found
      | m # ms \<Rightarrow> Some (last (m # ms)),
      out @ map (\<lambda>v. Secho (found_notice v) Green) (filter (\<lambda>v. startswith v version) vs))"
proof (induction vs arbitrary: found out)
  case Nil
  show ?case by simp
next
  case (Cons v vs)
  show ?case
    by (simp add: Cons.IH split: list.splits)
qed

lemma sorted_key_le_last:
  "sorted (map k ys) \<Longrightarrow> y \<in> set ys \<Longrightarrow> k y \<le> k (last ys)"
  by (induction ys) (auto split: if_splits)

lemma print_header_level_1:
  "\<exists>line. print_header w text 1 icon = ([Print line], Inr ())"
  by (simp add: print_header_def HEADER_LEVEL_CHARACTERS_def Let_def)

lemma installed_versions_nonempty: "v \<in> set (installed_versions stdout) \<Longrightarrow> v \<noteq> []"
  by (simp add: installed_versions_def)

lemma switch_python_version_eq:
  assumes "ctx list_command = Inr stdout"
  shows "switch_python_version w ctx version =
    (let header = fst (print_header w (u ''Switching to Python '' @ version) 1 [SNAKE]);
         out = header @ [Run list_command False (Some HideStdout)];
         installed = installed_versions stdout
     in if \<exists>v\<in>set installed. version_key (int_max_str_digits w) v = None then (out, Inl ValueError)
        else (let python_versions = sort_key (\<lambda>v. the (version_key (int_max_str_digits w) v)) installed;
                  ms = filter (\<lambda>v. startswith v version) python_versions;
                  notices = map (\<lambda>v. Secho (found_notice v) Green) ms
              in if ms = [] then
                   (out @ [Secho (not_found_notice version) Red, Print (guidance python_versions)],
                    Inl (Exit None None))
                 else
                   (out @ notices @ [Run (switch_command (last ms)) True None],
                    case ctx (switch_command (last ms)) of Inl e \<Rightarrow> Inl e | Inr _ \<Rightarrow> Inr ())))"
proof -
  obtain line where h: "print_header w (u ''Switching to Python '' @ version) 1 [SNAKE]
      = ([Print line], Inr ())"
    using print_header_level_1 by blast
  let ?inst = "installed_versions stdout"
  show ?thesis
  proof (cases "\<exists>v\<in>set ?inst. version_key (int_max_str_digits w) v = None")
    case True
    then show ?thesis
      using assms h by (simp add: switch_python_version_def sorted_versions_eq Let_def)
  next
    case False
    let ?pv = "sort_key (\<lambda>v. the (version_key (int_max_str_digits w) v)) ?inst"
    let ?ms = "filter (\<lambda>v. startswith v version) ?pv"
    show ?thesis
    proof (cases ?ms)
      case Nil
      then show ?thesis
        using assms h False
        by (simp add: switch_python_version_def sorted_versions_eq Let_def scan_versions_eq)
    next
      case (Cons m ms')
      have "last ?ms \<in> set ?ms" using Cons by (metis last_in_set list.distinct(1))
      then have "last ?ms \<in> set ?inst" by simp
      then have ne: "last ?ms \<noteq> []" by (rule installed_versions_nonempty)
      from Cons have ne2: "last (m # ms') \<noteq> []" using ne by simp
      show ?thesis
        using assms h False Cons ne2
        by (simp add: switch_python_version_def sorted_versions_eq Let_def scan_versions_eq)
    qed
  qed
qed

lemma header_has_no_run:
  "Run c pty h \<notin> set (fst (print_header w text 1 icon))"
  using print_header_level_1 [of w "text" icon] by auto

subsection \<open>Conversion of decimal digits\<close>

lemma digit_value_ascii: "48 \<le> c \<Longrightarrow> c \<le> 57 \<Longrightarrow> digit_value c = Some (c - 48)"
  by (simp add: digit_value_def DECIMAL_ZEROS_def)

lemma is_digit_ascii: "48 \<le> c \<Longrightarrow> c \<le> 57 \<Longrightarrow> is_digit c"
  by (simp add: is_digit_def digit_value_ascii)

lemma not_is_space_ascii_digit: "48 \<le> c \<Longrightarrow> c \<le> 57 \<Longrightarrow> \<not> is_space c"
  by (auto simp: is_space_def)

lemma scan_digits_ascii:
  "\<forall>c\<in>set xs. 48 \<le> c \<and> c \<le> 57 \<Longrightarrow>
   scan_digits p acc (xs @ ys) =
     scan_digits (p \<or> xs \<noteq> []) (foldl (\<lambda>a c. a * 10 + (int c - 48)) acc xs) ys"
proof (induction xs arbitrary: p acc)
  case Nil
  show ?case by simp
next
  case (Cons x xs)
  then have x: "48 \<le> x" "x \<le> 57" by simp_all
  then have "int (x - 48) = int x - 48" by simp
  with Cons x show ?case by (simp add: digit_value_ascii)
qed

lemma decimal_string_digits: "\<forall>c\<in>set (decimal_string n). 48 \<le> c \<and> c \<le> 57"
proof (induction n rule: decimal_string.induct)
  case (1 n)
  show ?case
  proof (cases "n < 10")
    case True
    then show ?thesis by (subst decimal_string.simps) simp
  next
    case False
    have "n mod 10 < 10" by simp
    then have "48 + n mod 10 \<le> 57" by linarith
    with False "1.IH" show ?thesis by (subst decimal_string.simps) simp
  qed
qed

lemma decimal_string_nonempty: "decimal_string n \<noteq> []"
  by (subst decimal_string.simps) simp

lemma decimal_string_value:
  "foldl (\<lambda>a c. a * 10 + (int c - 48)) 0 (decimal_string n) = int n"
proof (induction n rule: decimal_string.induct)
  case (1 n)
  show ?case
  proof (cases "n < 10")
    case True
    then show ?thesis by (subst decimal_string.simps) simp
  next
    case False
    have "int (n div 10) * 10 + int (n mod 10) = int n"
      by (metis mult.commute of_nat_add of_nat_mult of_nat_numeral div_mult_mod_eq)
    with False "1.IH" show ?thesis by (subst decimal_string.simps) simp
  qed
qed

lemma dropWhile_none: "\<forall>x\<in>set xs. \<not> P x \<Longrightarrow> dropWhile P xs = xs"
  by (cases xs) auto

lemma py_int_decimal_string:
  assumes "lim = 0 \<or> length (decimal_string n) \<le> lim"
  shows "py_int lim (decimal_string n) = Some (int n)"
proof -
  let ?s = "decimal_string n"
  have dig: "\<forall>c\<in>set ?s. 48 \<le> c \<and> c \<le> 57" by (rule decimal_string_digits)
  then have nosp: "\<forall>c\<in>set ?s. \<not> is_space c" by (auto dest: not_is_space_ascii_digit)
  then have strip: "dropWhile is_space (rev (dropWhile is_space (rev ?s))) = ?s"
    by (simp add: dropWhile_none)
  obtain c cs where s: "?s = c # cs"
    using decimal_string_nonempty [of n] by (cases ?s) auto
  with dig have c: "48 \<le> c" "c \<le> 57" by simp_all
  have "filter is_digit ?s = ?s"
    using dig by (simp add: filter_id_conv is_digit_ascii)
  then have lim: "\<not> (0 < lim \<and> lim < length (filter is_digit ?s))"
    using assms by auto
  have "scan_digits False 0 (?s @ []) = Some (int n)"
    unfolding scan_digits_ascii [OF dig] using decimal_string_nonempty [of n]
    by (simp add: decimal_string_value)
  then have "convert_digits lim ?s = Some (int n)"
    using lim by (simp add: convert_digits_def)
  then show ?thesis
    unfolding py_int_def strip using s c by simp
qed

subsection \<open>The key of a version written as integers\<close>

lemma split_on_no_sep: "sep \<notin> set x \<Longrightarrow> split_on sep x = [x]"
  by (induction x) auto

lemma split_on_append: "sep \<notin> set x \<Longrightarrow> split_on sep (x @ sep # rest) = x # split_on sep rest"
  by (induction x) auto

lemma dot_not_in_decimal_string: "46 \<notin> set (decimal_string n)"
  using decimal_string_digits [of n] by auto

lemma split_on_render_version:
  "ns \<noteq> [] \<Longrightarrow> split_on 46 (render_version ns) = map decimal_string ns"
proof (induction ns rule: induct_list012)
  case 1
  then show ?case by simp
next
  case (2 n)
  show ?case by (simp add: render_version_def split_on_no_sep dot_not_in_decimal_string)
next
  case (3 n m ms)
  then have "split_on 46 (render_version (m # ms)) = map decimal_string (m # ms)" by simp
  then show ?case
    by (simp add: render_version_def u_def split_on_append dot_not_in_decimal_string)
qed

lemma those_map_all_Some: "\<forall>x\<in>set xs. f x = Some (g x) \<Longrightarrow> those (map f xs) = Some (map g xs)"
  by (induction xs) auto

lemma version_key_render_version:
  assumes "ns \<noteq> []" "\<forall>n\<in>set ns. within_limit w n"
  shows "version_key (int_max_str_digits w) (render_version ns) = Some (map int ns)"
proof -
  have "\<forall>n\<in>set ns. py_int (int_max_str_digits w) (decimal_string n) = Some (int n)"
    using assms(2) by (auto simp: within_limit_def intro: py_int_decimal_string)
  then have "those (map (\<lambda>n. py_int (int_max_str_digits w) (decimal_string n)) ns)
      = Some (map int ns)"
    by (rule those_map_all_Some)
  then have "those (map (py_int (int_max_str_digits w)) (map decimal_string ns))
      = Some (map int ns)"
    by (simp add: comp_def)
  then show ?thesis
    using assms(1) by (simp add: version_key_def split_on_render_version)
qed

subsection \<open>The examples\<close>

lemma digit_value_examples:
  "digit_value 45 = None" "digit_value 100 = None" "digit_value 101 = None"
  "digit_value 118 = None" "digit_value 120 = None"
  by (simp_all add: digit_value_def DECIMAL_ZEROS_def)

lemma installed_36: "installed_versions stdout_36 = [u ''3.6.1'', u ''3.6.9'', u ''3.9.0'']"
  by (simp add: installed_versions_def stdout_36_def u_def NEWLINE_def)

lemma installed_10: "installed_versions stdout_10 = [u ''3.6.10'', u ''3.6.9'', u ''3.9.0'']"
  by (simp add: installed_versions_def stdout_10_def u_def NEWLINE_def)

lemma installed_dev: "installed_versions stdout_dev = [u ''2.7.18'', u ''3.9-dev'']"
  by (simp add: installed_versions_def stdout_dev_def u_def NEWLINE_def)

lemma installed_x: "installed_versions stdout_x = [u ''3.6.1'', u ''3.x.0'']"
  by (simp add: installed_versions_def stdout_x_def u_def NEWLINE_def)

lemma keys_examples:
  "version_key 4300 (u ''3.6.1'') = Some [3, 6, 1]"
  "version_key 4300 (u ''3.6.9'') = Some [3, 6, 9]"
  "version_key 4300 (u ''3.6.10'') = Some [3, 6, 10]"
  "version_key 4300 (u ''3.9.0'') = Some [3, 9, 0]"
  "version_key 4300 (u ''2.7.18'') = Some [2, 7, 18]"
  "version_key 4300 (u ''3.9-dev'') = None"
  "version_key 4300 (u ''3.x.0'') = None"
  by (simp_all add: version_key_def py_int_def convert_digits_def is_space_def is_digit_def
      digit_value_ascii digit_value_examples u_def)

lemma limit_w80: "int_max_str_digits w80 = 4300"
  by (simp add: w80_def)

subsection \<open>No installed version matches\<close>

lemma switch_python_version_not_found_path:
  assumes "ctx list_command = Inr stdout"
    and "\<forall>v\<in>set (installed_versions stdout). version_key (int_max_str_digits w) v \<noteq> None"
    and "\<forall>v\<in>set (installed_versions stdout). \<not> startswith v version"
  shows "switch_python_version w ctx version =
      (fst (print_header w (u ''Switching to Python '' @ version) 1 [SNAKE])
         @ [Run list_command False (Some HideStdout),
            Secho (not_found_notice version) Red,
            Print (guidance (sort_key (\<lambda>v. the (version_key (int_max_str_digits w) v))
                      (installed_versions stdout)))],
       Inl (Exit None None))
    \<and> (\<forall>v. Run (switch_command v) True None \<notin> set (fst (switch_python_version w ctx version)))"
proof -
  let ?pv = "sort_key (\<lambda>v. the (version_key (int_max_str_digits w) v)) (installed_versions stdout)"
  have "filter (\<lambda>v. startswith v version) ?pv = []"
    using assms(3) by (simp add: filter_empty_conv)
  then have eq: "switch_python_version w ctx version =
      (fst (print_header w (u ''Switching to Python '' @ version) 1 [SNAKE])
         @ [Run list_command False (Some HideStdout),
            Secho (not_found_notice version) Red, Print (guidance ?pv)],
       Inl (Exit None None))"
    using assms(1,2) by (simp add: switch_python_version_eq [of ctx stdout w version] Let_def)
  show ?thesis
    by (simp add: eq header_has_no_run)
qed

lemma sorted_36:
  "sort_key (\<lambda>v. the (version_key 4300 v)) (installed_versions stdout_36)
     = [u ''3.6.1'', u ''3.6.9'', u ''3.9.0'']"
  by (simp add: installed_36 keys_examples)

lemma sorted_10:
  "sort_key (\<lambda>v. the (version_key 4300 v)) (installed_versions stdout_10)
     = [u ''3.6.9'', u ''3.6.10'', u ''3.9.0'']"
  by (simp add: installed_10 keys_examples)

text \<open>
  Claim C2 at the example of the specification: with \<open>3.6.1\<close>, \<open>3.6.9\<close> and \<open>3.9.0\<close>
  installed and the request \<open>3.12\<close> the switcher writes the header, runs the listing
  command, writes the red notice and the guidance, runs no switch command and raises
  \<open>Exit()\<close>, with no message and no code. The status \<open>invoke\<close> gives the process for it
  is 0, the status of success.
\<close>

theorem switch_python_version_not_found_exit_status:
  "switch_python_version w80 ctx_36 (u ''3.12'') =
      (fst (print_header w80 (u ''Switching to Python 3.12'') 1 [SNAKE])
         @ [Run list_command False (Some HideStdout),
            Secho (not_found_notice (u ''3.12'')) Red,
            Print (guidance [u ''3.6.1'', u ''3.6.9'', u ''3.9.0''])],
       Inl (Exit None None))
   \<and> Exit_code None None = 0"
proof -
  have a: "ctx_36 list_command = Inr stdout_36" by (simp add: ctx_36_def)
  have b: "\<forall>v\<in>set (installed_versions stdout_36). version_key (int_max_str_digits w80) v \<noteq> None"
    by (simp add: installed_36 keys_examples limit_w80)
  have c: "\<forall>v\<in>set (installed_versions stdout_36). \<not> startswith v (u ''3.12'')"
    by (simp add: installed_36 startswith_def u_def)
  have "switch_python_version w80 ctx_36 (u ''3.12'') =
      (fst (print_header w80 (u ''Switching to Python '' @ u ''3.12'') 1 [SNAKE])
         @ [Run list_command False (Some HideStdout),
            Secho (not_found_notice (u ''3.12'')) Red,
            Print (guidance (sort_key (\<lambda>v. the (version_key (int_max_str_digits w80) v))
                      (installed_versions stdout_36)))],
       Inl (Exit None None))"
    using switch_python_version_not_found_path [of ctx_36 stdout_36 w80 "u ''3.12''"] a b c
    by blast
  then show ?thesis
    by (simp add: limit_w80 sorted_36 Exit_code_def u_def)
qed

subsection \<open>Some installed version matches\<close>

text \<open>
  The order of the keys is by the integers, not by the characters: as lists of integers
  \<open>3.6.9\<close> is below \<open>3.6.10\<close>, as strings it is above.
\<close>

lemma version_order_examples:
  "map int [3, 6, 9] < map int [3, 6, 10]"
  "map int [3, 9, 0] < map int [3, 10, 1]"
  "u ''3.6.10'' < u ''3.6.9''"
  "u ''3.10.1'' < u ''3.9.0''"
  by (simp_all add: u_def)

text \<open>
  Claim C3: when the listing command succeeds, every installed version converts to
  integer components and some installed version starts with the requested prefix, the
  switcher selects an installed version that starts with the prefix and whose key is
  greatest among the installed versions that start with the prefix. It is the last match
  in the list sorted by the key, and the switch command is run for it. The key of a
  version written as integers in decimal with dots between them is the list of those
  integers, and lists of integers compare by their first differing integer: when the
  installed versions are written so, the selected one is a sequence of integers that is
  greatest among the matching ones, \<open>3.6.10\<close> above \<open>3.6.9\<close>. With \<open>3.6.1\<close>, \<open>3.6.9\<close> and
  \<open>3.9.0\<close> installed and the request \<open>3.6\<close> the selected version is \<open>3.6.9\<close>.
\<close>

theorem switch_python_version_selects_greatest:
  assumes "ctx list_command = Inr stdout"
    and "\<forall>v\<in>set (installed_versions stdout). version_key (int_max_str_digits w) v \<noteq> None"
    and "\<exists>v\<in>set (installed_versions stdout). startswith v version"
  shows "(\<exists>sel. sel \<in> set (installed_versions stdout) \<and> startswith sel version
      \<and> (\<forall>v\<in>set (installed_versions stdout).
            startswith v version \<longrightarrow>
              the (version_key (int_max_str_digits w) v)
                \<le> the (version_key (int_max_str_digits w) sel))
      \<and> sel = last (filter (\<lambda>v. startswith v version)
                  (sort_key (\<lambda>v. the (version_key (int_max_str_digits w) v))
                     (installed_versions stdout)))
      \<and> switch_python_version w ctx version =
          (fst (print_header w (u ''Switching to Python '' @ version) 1 [SNAKE])
             @ [Run list_command False (Some HideStdout)]
             @ map (\<lambda>v. Secho (found_notice v) Green)
                 (filter (\<lambda>v. startswith v version)
                   (sort_key (\<lambda>v. the (version_key (int_max_str_digits w) v))
                      (installed_versions stdout)))
             @ [Run (switch_command sel) True None],
           case ctx (switch_command sel) of Inl e \<Rightarrow> Inl e | Inr _ \<Rightarrow> Inr ()))
    \<and> (\<forall>ns. ns \<noteq> [] \<and> (\<forall>n\<in>set ns. within_limit w n)
          \<longrightarrow> version_key (int_max_str_digits w) (render_version ns) = Some (map int ns))
    \<and> (\<forall>nss. installed_versions stdout = map render_version nss
              \<and> (\<forall>ns\<in>set nss. ns \<noteq> [] \<and> (\<forall>n\<in>set ns. within_limit w n))
          \<longrightarrow> (\<exists>sel\<in>set nss. startswith (render_version sel) version
                \<and> (\<forall>ns\<in>set nss. startswith (render_version ns) version
                      \<longrightarrow> map int ns \<le> map int sel)
                \<and> Run (switch_command (render_version sel)) True None
                      \<in> set (fst (switch_python_version w ctx version))))"
proof (intro conjI allI impI)
  let ?k = "\<lambda>v. the (version_key (int_max_str_digits w) v)"
  let ?inst = "installed_versions stdout"
  let ?pv = "sort_key ?k ?inst"
  let ?ms = "filter (\<lambda>v. startswith v version) ?pv"
  let ?sel = "last ?ms"
  have ne: "?ms \<noteq> []"
    using assms(3) by (simp add: filter_empty_conv)
  then have "?sel \<in> set ?ms" by (rule last_in_set)
  then have sel: "?sel \<in> set ?inst" "startswith ?sel version" by simp_all
  have "sorted (map ?k ?pv)" by (rule sorted_sort_key)
  then have srt: "sorted (map ?k ?ms)" by (rule sorted_filter)
  have great: "\<forall>v\<in>set ?inst. startswith v version \<longrightarrow> ?k v \<le> ?k ?sel"
  proof (intro ballI impI)
    fix v assume "v \<in> set ?inst" "startswith v version"
    then have "v \<in> set ?ms" by simp
    with srt show "?k v \<le> ?k ?sel" by (rule sorted_key_le_last)
  qed
  have run: "switch_python_version w ctx version =
        (fst (print_header w (u ''Switching to Python '' @ version) 1 [SNAKE])
           @ [Run list_command False (Some HideStdout)]
           @ map (\<lambda>v. Secho (found_notice v) Green) ?ms
           @ [Run (switch_command ?sel) True None],
         case ctx (switch_command ?sel) of Inl e \<Rightarrow> Inl e | Inr _ \<Rightarrow> Inr ())"
    using assms(1,2) ne
    by (simp add: switch_python_version_eq [of ctx stdout w version] Let_def)
  from sel great run
  show "\<exists>sel. sel \<in> set ?inst \<and> startswith sel version
      \<and> (\<forall>v\<in>set ?inst. startswith v version \<longrightarrow> ?k v \<le> ?k sel)
      \<and> sel = last ?ms
      \<and> switch_python_version w ctx version =
          (fst (print_header w (u ''Switching to Python '' @ version) 1 [SNAKE])
             @ [Run list_command False (Some HideStdout)]
             @ map (\<lambda>v. Secho (found_notice v) Green) ?ms
             @ [Run (switch_command sel) True None],
           case ctx (switch_command sel) of Inl e \<Rightarrow> Inl e | Inr _ \<Rightarrow> Inr ())"
    by blast
next
  fix ns
  assume "ns \<noteq> [] \<and> (\<forall>n\<in>set ns. within_limit w n)"
  then show "version_key (int_max_str_digits w) (render_version ns) = Some (map int ns)"
    by (simp add: version_key_render_version)
next
  fix nss
  assume h: "installed_versions stdout = map render_version nss
      \<and> (\<forall>ns\<in>set nss. ns \<noteq> [] \<and> (\<forall>n\<in>set ns. within_limit w n))"
  let ?k = "\<lambda>v. the (version_key (int_max_str_digits w) v)"
  let ?inst = "installed_versions stdout"
  let ?pv = "sort_key ?k ?inst"
  let ?ms = "filter (\<lambda>v. startswith v version) ?pv"
  let ?sel = "last ?ms"
  have key: "\<And>ns. ns \<in> set nss \<Longrightarrow> ?k (render_version ns) = map int ns"
    using h by (simp add: version_key_render_version)
  have ne: "?ms \<noteq> []"
    using assms(3) by (simp add: filter_empty_conv)
  then have "?sel \<in> set ?ms" by (rule last_in_set)
  then have sel: "?sel \<in> set ?inst" "startswith ?sel version" by simp_all
  from sel(1) h obtain ns_sel where ns_sel: "ns_sel \<in> set nss" "?sel = render_version ns_sel"
    by auto
  have "sorted (map ?k ?pv)" by (rule sorted_sort_key)
  then have srt: "sorted (map ?k ?ms)" by (rule sorted_filter)
  have great: "\<forall>ns\<in>set nss. startswith (render_version ns) version
      \<longrightarrow> map int ns \<le> map int ns_sel"
  proof (intro ballI impI)
    fix ns assume ns: "ns \<in> set nss" "startswith (render_version ns) version"
    then have "render_version ns \<in> set ?inst" using h by simp
    with ns(2) have "render_version ns \<in> set ?ms" by simp
    with srt have "?k (render_version ns) \<le> ?k ?sel" by (rule sorted_key_le_last)
    then show "map int ns \<le> map int ns_sel"
      using key [OF ns(1)] key [OF ns_sel(1)] ns_sel(2) by simp
  qed
  have "fst (switch_python_version w ctx version) =
        fst (print_header w (u ''Switching to Python '' @ version) 1 [SNAKE])
           @ [Run list_command False (Some HideStdout)]
           @ map (\<lambda>v. Secho (found_notice v) Green) ?ms
           @ [Run (switch_command ?sel) True None]"
    using assms(1,2) ne
    by (simp add: switch_python_version_eq [of ctx stdout w version] Let_def)
  then have "Run (switch_command (render_version ns_sel)) True None
      \<in> set (fst (switch_python_version w ctx version))"
    using ns_sel(2) by simp
  with ns_sel sel(2) great
  show "\<exists>sel\<in>set nss. startswith (render_version sel) version
      \<and> (\<forall>ns\<in>set nss. startswith (render_version ns) version
            \<longrightarrow> map int ns \<le> map int sel)
      \<and> Run (switch_command (render_version sel)) True None
            \<in> set (fst (switch_python_version w ctx version))"
    by auto
qed

theorem switch_python_version_selects_greatest_witness:
  "switch_python_version w80 ctx_10 (u ''3.6'') =
     (fst (print_header w80 (u ''Switching to Python 3.6'') 1 [SNAKE])
        @ [Run list_command False (Some HideStdout),
           Secho (found_notice (u ''3.6.9'')) Green,
           Secho (found_notice (u ''3.6.10'')) Green,
           Run (u ''source deactivate; git clean -fxd .venv && pyenv local 3.6.10 && poetry install'')
             True None],
      Inr ())
   \<and> switch_python_version w80 ctx_36 (u ''3.6'') =
     (fst (print_header w80 (u ''Switching to Python 3.6'') 1 [SNAKE])
        @ [Run list_command False (Some HideStdout),
           Secho (found_notice (u ''3.6.1'')) Green,
           Secho (found_notice (u ''3.6.9'')) Green,
           Run (u ''source deactivate; git clean -fxd .venv && pyenv local 3.6.9 && poetry install'')
             True None],
      Inr ())"
proof
  have a: "ctx_10 list_command = Inr stdout_10" by (simp add: ctx_10_def)
  have b: "\<forall>v\<in>set (installed_versions stdout_10). version_key (int_max_str_digits w80) v \<noteq> None"
    by (simp add: installed_10 keys_examples limit_w80)
  have c: "\<exists>v\<in>set (installed_versions stdout_10). startswith v (u ''3.6'')"
    by (simp add: installed_10 startswith_def u_def)
  have ms: "filter (\<lambda>v. startswith v (u ''3.6''))
      (sort_key (\<lambda>v. the (version_key (int_max_str_digits w80) v)) (installed_versions stdout_10))
      = [u ''3.6.9'', u ''3.6.10'']"
    unfolding limit_w80 sorted_10 by (simp add: startswith_def u_def)
  from switch_python_version_selects_greatest
    [of ctx_10 stdout_10 w80 "u ''3.6''", THEN conjunct1] a b c
  show "switch_python_version w80 ctx_10 (u ''3.6'') =
     (fst (print_header w80 (u ''Switching to Python 3.6'') 1 [SNAKE])
        @ [Run list_command False (Some HideStdout),
           Secho (found_notice (u ''3.6.9'')) Green,
           Secho (found_notice (u ''3.6.10'')) Green,
           Run (u ''source deactivate; git clean -fxd .venv && pyenv local 3.6.10 && poetry install'')
             True None],
      Inr ())"
    unfolding ms by (auto simp: ctx_10_def switch_command_def u_def)
next
  have a: "ctx_36 list_command = Inr stdout_36" by (simp add: ctx_36_def)
  have b: "\<forall>v\<in>set (installed_versions stdout_36). version_key (int_max_str_digits w80) v \<noteq> None"
    by (simp add: installed_36 keys_examples limit_w80)
  have c: "\<exists>v\<in>set (installed_versions stdout_36). startswith v (u ''3.6'')"
    by (simp add: installed_36 startswith_def u_def)
  have ms: "filter (\<lambda>v. startswith v (u ''3.6''))
      (sort_key (\<lambda>v. the (version_key (int_max_str_digits w80) v)) (installed_versions stdout_36))
      = [u ''3.6.1'', u ''3.6.9'']"
    unfolding limit_w80 sorted_36 by (simp add: startswith_def u_def)
  from switch_python_version_selects_greatest
    [of ctx_36 stdout_36 w80 "u ''3.6''", THEN conjunct1] a b c
  show "switch_python_version w80 ctx_36 (u ''3.6'') =
     (fst (print_header w80 (u ''Switching to Python 3.6'') 1 [SNAKE])
        @ [Run list_command False (Some HideStdout),
           Secho (found_notice (u ''3.6.1'')) Green,
           Secho (found_notice (u ''3.6.9'')) Green,
           Run (u ''source deactivate; git clean -fxd .venv && pyenv local 3.6.9 && poetry install'')
             True None],
      Inr ())"
    unfolding ms by (auto simp: ctx_36_def switch_command_def u_def)
qed

subsection \<open>A version that does not convert\<close>

lemma scan_digits_other:
  "x \<in> set cs \<Longrightarrow> \<not> is_digit x \<Longrightarrow> x \<noteq> 95 \<Longrightarrow> scan_digits prev acc cs = None"
  by (induction cs arbitrary: prev acc) (auto simp: is_digit_def split: option.splits)

lemma convert_digits_other:
  "x \<in> set cs \<Longrightarrow> \<not> is_digit x \<Longrightarrow> x \<noteq> 95 \<Longrightarrow> convert_digits lim cs = None"
  by (simp add: convert_digits_def scan_digits_other)

lemma set_dropWhile_keep: "x \<in> set xs \<Longrightarrow> \<not> P x \<Longrightarrow> x \<in> set (dropWhile P xs)"
  by (induction xs) auto

lemma py_int_other_character:
  assumes "x \<in> set c" "\<not> is_digit x" "\<not> is_space x" "x \<noteq> 43" "x \<noteq> 45" "x \<noteq> 95"
  shows "py_int lim c = None"
proof -
  let ?t = "dropWhile is_space (rev (dropWhile is_space (rev c)))"
  have "x \<in> set (dropWhile is_space (rev c))"
    using assms(1,3) by (simp add: set_dropWhile_keep)
  then have x: "x \<in> set ?t"
    using assms(3) by (simp add: set_dropWhile_keep)
  show ?thesis
  proof (cases ?t)
    case Nil
    show ?thesis unfolding py_int_def Nil by simp
  next
    case (Cons d ds)
    have whole: "convert_digits lim (d # ds) = None"
      using x assms(2,6) Cons convert_digits_other [of x "d # ds" lim] by simp
    have rest: "d = 43 \<or> d = 45 \<Longrightarrow> convert_digits lim ds = None"
      using x assms(2,4,5,6) Cons convert_digits_other [of x ds lim] by auto
    show ?thesis
      unfolding py_int_def Cons using whole rest by simp
  qed
qed

text \<open>
  Claim C10: the sort raises \<open>ValueError\<close> exactly when some component of some installed
  version does not convert to an integer; the task then ends in \<open>ValueError\<close> right after
  the listing command, before the scan, with no notice written. A component that holds
  a character that is no decimal digit, no white space, no sign and no underscore, a
  letter for one, does not convert; an integer written in decimal, with no more digits
  than the interpreter allows, does.
\<close>

theorem switch_python_version_conversion_error:
  "(sorted_versions lim vs = Inl ValueError
      \<longleftrightarrow> (\<exists>v\<in>set vs. \<exists>c\<in>set (split_on (of_char CHR ''.'') v). py_int lim c = None))
   \<and> (ctx list_command = Inr stdout
        \<and> (\<exists>v\<in>set (installed_versions stdout).
              \<exists>c\<in>set (split_on (of_char CHR ''.'') v). py_int (int_max_str_digits w) c = None)
      \<longrightarrow> switch_python_version w ctx version =
            (fst (print_header w (u ''Switching to Python '' @ version) 1 [SNAKE])
               @ [Run list_command False (Some HideStdout)],
             Inl ValueError))
   \<and> (x \<in> set c \<and> \<not> is_digit x \<and> \<not> is_space x \<and> x \<noteq> 43 \<and> x \<noteq> 45 \<and> x \<noteq> 95
      \<longrightarrow> py_int lim c = None)
   \<and> (lim = 0 \<or> length (decimal_string n) \<le> lim
      \<longrightarrow> py_int lim (decimal_string n) = Some (int n))"
proof (intro conjI impI)
  show "sorted_versions lim vs = Inl ValueError
      \<longleftrightarrow> (\<exists>v\<in>set vs. \<exists>c\<in>set (split_on (of_char CHR ''.'') v). py_int lim c = None)"
    by (simp add: sorted_versions_eq version_key_None)
next
  assume h: "ctx list_command = Inr stdout
        \<and> (\<exists>v\<in>set (installed_versions stdout).
              \<exists>c\<in>set (split_on (of_char CHR ''.'') v). py_int (int_max_str_digits w) c = None)"
  then have "\<exists>v\<in>set (installed_versions stdout). version_key (int_max_str_digits w) v = None"
    by (simp add: version_key_None)
  with h show "switch_python_version w ctx version =
            (fst (print_header w (u ''Switching to Python '' @ version) 1 [SNAKE])
               @ [Run list_command False (Some HideStdout)],
             Inl ValueError)"
    by (simp add: switch_python_version_eq [of ctx stdout w version] Let_def)
next
  assume "x \<in> set c \<and> \<not> is_digit x \<and> \<not> is_space x \<and> x \<noteq> 43 \<and> x \<noteq> 45 \<and> x \<noteq> 95"
  then show "py_int lim c = None" by (blast intro: py_int_other_character)
next
  assume "lim = 0 \<or> length (decimal_string n) \<le> lim"
  then show "py_int lim (decimal_string n) = Some (int n)" by (rule py_int_decimal_string)
qed

theorem switch_python_version_conversion_error_witness:
  "switch_python_version w80 ctx_x (u ''3.6'') =
     (fst (print_header w80 (u ''Switching to Python '' @ u ''3.6'') 1 [SNAKE])
        @ [Run list_command False (Some HideStdout)],
      Inl ValueError)
   \<and> sorted_versions 4300 (installed_versions stdout_x) = Inl ValueError
   \<and> py_int 4300 (u ''x'') = None
   \<and> py_int 4300 (decimal_string 36) = Some 36"
proof (intro conjI)
  have bad: "\<exists>v\<in>set (installed_versions stdout_x).
      \<exists>c\<in>set (split_on (of_char CHR ''.'') v). py_int 4300 c = None"
    using keys_examples(7) by (simp add: installed_x version_key_None)
  have run: "ctx_x list_command = Inr stdout_x" by (simp add: ctx_x_def)
  show "switch_python_version w80 ctx_x (u ''3.6'') =
     (fst (print_header w80 (u ''Switching to Python '' @ u ''3.6'') 1 [SNAKE])
        @ [Run list_command False (Some HideStdout)],
      Inl ValueError)"
    by (rule switch_python_version_conversion_error
          [where ctx = ctx_x and stdout = stdout_x, THEN conjunct2, THEN conjunct1, THEN mp])
      (use run bad in \<open>simp add: limit_w80\<close>)
  show "sorted_versions 4300 (installed_versions stdout_x) = Inl ValueError"
    by (rule switch_python_version_conversion_error [THEN conjunct1, THEN iffD2]) (rule bad)
  show "py_int 4300 (u ''x'') = None"
    by (rule switch_python_version_conversion_error
          [THEN conjunct2, THEN conjunct2, THEN conjunct1, THEN mp, of 120])
      (simp add: u_def is_digit_def digit_value_examples is_space_def)
  have "length (decimal_string 36) \<le> 4300"
    by (simp add: decimal_string.simps)
  then show "py_int 4300 (decimal_string 36) = Some 36"
    using switch_python_version_conversion_error
          [THEN conjunct2, THEN conjunct2, THEN conjunct2, of 4300 36]
    by simp
qed

text \<open>
  So it is with \<open>2.7.18\<close> and \<open>3.9-dev\<close> installed: no version starts with \<open>3.12\<close>, and the
  task ends in \<open>ValueError\<close> with no notice and no guidance.
\<close>

lemma switch_python_version_dev_example:
  "switch_python_version w80 ctx_dev (u ''3.12'') =
      (fst (print_header w80 (u ''Switching to Python '' @ u ''3.12'') 1 [SNAKE])
         @ [Run list_command False (Some HideStdout)],
       Inl ValueError)
   \<and> installed_versions stdout_dev = [u ''2.7.18'', u ''3.9-dev'']
   \<and> \<not> startswith (u ''2.7.18'') (u ''3.12'') \<and> \<not> startswith (u ''3.9-dev'') (u ''3.12'')"
proof -
  have "ctx_dev list_command = Inr stdout_dev" by (simp add: ctx_dev_def)
  then have "switch_python_version w80 ctx_dev (u ''3.12'') =
      (fst (print_header w80 (u ''Switching to Python '' @ u ''3.12'') 1 [SNAKE])
         @ [Run list_command False (Some HideStdout)],
       Inl ValueError)"
    by (simp add: switch_python_version_eq [of ctx_dev stdout_dev] installed_dev keys_examples
        limit_w80)
  then show ?thesis
    by (simp add: installed_dev) (simp add: startswith_def u_def)
qed

end
